theory Spec2Isabelle
  imports Complex_Main
begin

section \<open>Values shared by both modules\<close>

text \<open>
  JSON-like Python values. A \<^verbatim>\<open>dict\<close> is an association list in insertion order
  (Python dictionaries have unique keys; lookup takes the first entry). A Python
  \<^verbatim>\<open>float\<close> is carried as the rational it denotes: the code never computes on
  floats, it only truncates the clock with \<^verbatim>\<open>int()\<close>.
\<close>

datatype json =
    JNull
  | JBool bool
  | JInt int
  | JFloat rat
  | JStr string
  | JArr "json list"
  | JObj "(string \<times> json) list"

text \<open>
  The exceptions the code distinguishes. \<open>Exception\<close> stands for any other subclass
  of Python's \<^verbatim>\<open>Exception\<close>; \<open>KeyboardInterrupt\<close> and \<open>SystemExit\<close> derive from
  \<^verbatim>\<open>BaseException\<close> only, so \<^verbatim>\<open>except Exception\<close> does not catch them.
\<close>

datatype exn =
    ValidationError
  | JSONDecodeError
  | FileNotFoundError
  | TypeError
  | KeyError
  | Exception
  | KeyboardInterrupt
  | SystemExit

fun is_Exception :: "exn \<Rightarrow> bool" where
  "is_Exception KeyboardInterrupt = False"
| "is_Exception SystemExit = False"
| "is_Exception _ = True"

text \<open>Python's \<^verbatim>\<open>s in t\<close> on strings: \<open>s\<close> occurs in \<open>t\<close> as a contiguous substring.\<close>

fun str_in :: "string \<Rightarrow> string \<Rightarrow> bool" where
  "str_in s [] = (s = [])"
| "str_in s (c # cs) = (take (length s) (c # cs) = s \<or> str_in s cs)"

text \<open>Python's \<^verbatim>\<open>int(x)\<close> on a float: truncation towards zero.\<close>

definition py_int :: "rat \<Rightarrow> int" where
  "py_int x = (if 0 \<le> x then \<lfloor>x\<rfloor> else \<lceil>x\<rceil>)"

text \<open>
  The library functions the code calls, taken as parameters:
  \<^verbatim>\<open>jsonschema.validate(instance, schema)\<close> returns (\<open>None\<close>) or raises,
  \<^verbatim>\<open>json.dumps\<close> returns text or raises, \<^verbatim>\<open>json.loads(bytes.decode('utf-8'))\<close>
  returns a value or raises.
\<close>

record libs =
  jsonschema_validate :: "json \<Rightarrow> json \<Rightarrow> exn option"
  json_dumps :: "json \<Rightarrow> exn + string"
  json_loads :: "string \<Rightarrow> exn + json"

section \<open>schema\_validator.py\<close>

text \<open>
  \<open>obj_id\<close> is the identity of the Python object (what \<^verbatim>\<open>id()\<close> returns), given
  at construction; \<open>schemas\<close> is the dictionary from schema name to loaded schema.
\<close>

record SchemaValidator =
  obj_id :: nat
  schema_dir :: string
  schemas :: "string \<rightharpoonup> json"

text \<open>
  The files of the schema directory: \<open>read_json path\<close> is the outcome of
  \<^verbatim>\<open>open(path)\<close> followed by \<^verbatim>\<open>json.load\<close>; \<open>module_dir\<close> is
  \<^verbatim>\<open>Path(__file__).parent\<close>.
\<close>

record validator_env =
  module_dir :: string
  read_json :: "string \<Rightarrow> exn + json"

definition schema_files :: "(string \<times> string) list" where
  "schema_files =
     [(''telemetry'', ''telemetry.schema.json''),
      (''alert'', ''alert.schema.json''),
      (''command'', ''command.schema.json'')]"

text \<open>
  The operator \<^verbatim>\<open>/\<close> of \<^verbatim>\<open>pathlib\<close>: an absolute right operand replaces the left
  one, an empty one leaves it, and otherwise the two are joined by a separator. The
  left operand is a directory without a trailing separator, as
  \<^verbatim>\<open>Path(__file__).parent\<close> is below the root; the right operands of the code
  (the default directory, the three file names) have no \<^verbatim>\<open>.\<close> component to drop.
\<close>

definition path_join :: "string \<Rightarrow> string \<Rightarrow> string" where
  "path_join a b =
     (case b of
        [] \<Rightarrow> a
      | c # cs \<Rightarrow> if c = CHR ''/'' then b else a @ ''/'' @ b)"

text \<open>
  One pass of the loop body of \<^verbatim>\<open>_load_schemas\<close>: only \<^verbatim>\<open>FileNotFoundError\<close> and
  \<^verbatim>\<open>JSONDecodeError\<close> are caught; anything else leaves the constructor.
\<close>

definition load_schema ::
  "validator_env \<Rightarrow> SchemaValidator \<Rightarrow> string \<times> string \<Rightarrow> exn + SchemaValidator" where
  "load_schema E V nf =
     (case read_json E (path_join (schema_dir V) (snd nf)) of
        Inr s \<Rightarrow> Inr (V\<lparr>schemas := (schemas V)(fst nf \<mapsto> s)\<rparr>)
      | Inl e \<Rightarrow>
          if e = FileNotFoundError then Inr V
          else if e = JSONDecodeError then Inr V
          else Inl e)"

fun load_loop ::
  "validator_env \<Rightarrow> SchemaValidator \<Rightarrow> (string \<times> string) list \<Rightarrow> exn + SchemaValidator" where
  "load_loop E V [] = Inr V"
| "load_loop E V (nf # rest) =
     (case load_schema E V nf of
        Inl e \<Rightarrow> Inl e
      | Inr V' \<Rightarrow> load_loop E V' rest)"

definition load_schemas :: "validator_env \<Rightarrow> SchemaValidator \<Rightarrow> exn + SchemaValidator" where
  "load_schemas E V = load_loop E V schema_files"

definition default_schema_dir :: string where
  "default_schema_dir = ''../../backend/docs/mqtt/schemas''"

definition SchemaValidator_init :: "nat \<Rightarrow> validator_env \<Rightarrow> string \<Rightarrow> exn + SchemaValidator" where
  "SchemaValidator_init oid E sdir =
     load_schemas E
       \<lparr>obj_id = oid, schema_dir = path_join (module_dir E) sdir, schemas = Map.empty\<rparr>"

text \<open>
  \<^verbatim>\<open>_validate\<close>. The validator object is passed through and returned, so that what
  the method does to it is part of the result.
\<close>

definition validate ::
  "libs \<Rightarrow> SchemaValidator \<Rightarrow> json \<Rightarrow> string \<Rightarrow> SchemaValidator \<times> (exn + bool)" where
  "validate L V message schema_name =
     (case schemas V schema_name of
        None \<Rightarrow> (V, Inr False)
      | Some schema \<Rightarrow>
          (case jsonschema_validate L message schema of
             None \<Rightarrow> (V, Inr True)
           | Some e \<Rightarrow>
               if e = ValidationError then (V, Inr False)
               else if is_Exception e then (V, Inr False)
               else (V, Inl e)))"

definition validate_telemetry ::
  "libs \<Rightarrow> SchemaValidator \<Rightarrow> json \<Rightarrow> SchemaValidator \<times> (exn + bool)" where
  "validate_telemetry L V message = validate L V message ''telemetry''"

definition validate_alert ::
  "libs \<Rightarrow> SchemaValidator \<Rightarrow> json \<Rightarrow> SchemaValidator \<times> (exn + bool)" where
  "validate_alert L V message = validate L V message ''alert''"

definition validate_command ::
  "libs \<Rightarrow> SchemaValidator \<Rightarrow> json \<Rightarrow> SchemaValidator \<times> (exn + bool)" where
  "validate_command L V message = validate L V message ''command''"

text \<open>
  \<^verbatim>\<open>_validate\<close> once more, with what the library call can do to the objects it is
  given made explicit. \<^verbatim>\<open>validate(instance=message, schema=self.schemas[schema_name])\<close>
  receives the message and the stored schema by reference and has a state of its own:
  a call returns its outcome, the message and the schema as it leaves them, and its
  new state. The stored schema is the object the call was given, so the dictionary
  holds it as the call left it.
\<close>

type_synonym 's validate_call = "'s \<Rightarrow> json \<Rightarrow> json \<Rightarrow> exn option \<times> json \<times> json \<times> 's"

definition validate_effects ::
  "'s validate_call \<Rightarrow> 's \<Rightarrow> SchemaValidator \<Rightarrow> json \<Rightarrow> string \<Rightarrow>
     (exn + bool) \<times> SchemaValidator \<times> json \<times> 's" where
  "validate_effects jv s V message schema_name =
     (case schemas V schema_name of
        None \<Rightarrow> (Inr False, V, message, s)
      | Some schema \<Rightarrow>
          (case jv s message schema of
             (r, message', schema', s') \<Rightarrow>
               (let V' = V\<lparr>schemas := (schemas V)(schema_name \<mapsto> schema')\<rparr>
                in case r of
                     None \<Rightarrow> (Inr True, V', message', s')
                   | Some e \<Rightarrow>
                       if e = ValidationError then (Inr False, V', message', s')
                       else if is_Exception e then (Inr False, V', message', s')
                       else (Inl e, V', message', s'))))"


text \<open>
  The path \<^verbatim>\<open>_load_schemas\<close> opens for a file name when the validator is constructed
  with the default directory, as \<^verbatim>\<open>get_validator\<close> constructs it.
\<close>

definition schema_path :: "validator_env \<Rightarrow> string \<Rightarrow> string" where
  "schema_path E fname = path_join (path_join (module_dir E) default_schema_dir) fname"

text \<open>
  The module's global \<^verbatim>\<open>_validator\<close>, with the counter that hands out object
  identities and the number of times \<^verbatim>\<open>_load_schemas\<close> has been entered.
\<close>

record module_state =
  g_validator :: "SchemaValidator option"
  next_obj_id :: nat
  load_calls :: nat

definition module_start :: module_state where
  "module_start = \<lparr>g_validator = None, next_obj_id = 0, load_calls = 0\<rparr>"

definition get_validator ::
  "module_state \<Rightarrow> validator_env \<Rightarrow> module_state \<times> (exn + SchemaValidator)" where
  "get_validator G E =
     (case g_validator G of
        None \<Rightarrow>
          (let G1 = G\<lparr>next_obj_id := Suc (next_obj_id G), load_calls := Suc (load_calls G)\<rparr>
           in case SchemaValidator_init (next_obj_id G) E default_schema_dir of
                Inl e \<Rightarrow> (G1, Inl e)
              | Inr V \<Rightarrow> (G1\<lparr>g_validator := Some V\<rparr>, Inr V))
      | Some V \<Rightarrow> (G, Inr V))"

section \<open>base\_device.py: data\<close>

datatype DeviceStatus = ACTIVE | INACTIVE | ERROR | OFFLINE

record DeviceConfig =
  device_id :: string
  device_name :: string
  device_type :: string
  location :: string
  sensor_type :: string
  ca_cert :: string
  client_cert :: string
  client_key :: string
  mqtt_broker :: string
  mqtt_port :: int
  publish_interval :: int

text \<open>
  What the session does to the outside world, in the order it does it: the calls on
  the MQTT client object, \<^verbatim>\<open>time.sleep\<close>, and the calls of the subclass's
  \<^verbatim>\<open>handle_command\<close>. A call is recorded when it is made, whether it returns or raises.
\<close>

datatype effect =
    TlsSet string string string
  | MqttConnect string int int
  | LoopStart
  | LoopStop
  | MqttDisconnect
  | Subscribe string int
  | Publish string string int
  | Sleep int
  | HandleCommand json

text \<open>
  The attributes of a \<^verbatim>\<open>BaseDevice\<close>. \<open>last_published\<close> maps a topic to the
  \<^verbatim>\<open>datetime.now()\<close> of its last publish; \<open>trace\<close> stands for \<^verbatim>\<open>self.mqtt_client\<close>
  and the other collaborators, as the list of calls made on them so far.
\<close>

record BaseDevice =
  config :: DeviceConfig
  is_connected :: bool
  status :: DeviceStatus
  state :: json
  last_published :: "string \<rightharpoonup> rat"
  last_heartbeat :: rat
  error_count :: int
  uptime_seconds :: int
  validator :: SchemaValidator
  trace :: "effect list"

definition call :: "BaseDevice \<Rightarrow> effect \<Rightarrow> BaseDevice" where
  "call d x = d\<lparr>trace := trace d @ [x]\<rparr>"

section \<open>base\_device.py: construction\<close>

record init_env =
  init_time :: rat
  tls_result :: "exn option"

text \<open>
  \<^verbatim>\<open>_setup_mqtt_client\<close>: the handler of \<^verbatim>\<open>tls_set\<close> logs and re-raises, and an
  exception it does not catch leaves as well.
\<close>

definition setup_mqtt_client :: "BaseDevice \<Rightarrow> exn option \<Rightarrow> BaseDevice \<times> exn option" where
  "setup_mqtt_client d r =
     (let d1 = call d (TlsSet (ca_cert (config d)) (client_cert (config d)) (client_key (config d)))
      in case r of
           None \<Rightarrow> (d1, None)
         | Some e \<Rightarrow> (d1, Some e))"

definition BaseDevice_init ::
  "module_state \<Rightarrow> validator_env \<Rightarrow> DeviceConfig \<Rightarrow> init_env \<Rightarrow>
     module_state \<times> (exn + BaseDevice)" where
  "BaseDevice_init G E cfg I =
     (case get_validator G E of
        (G1, Inl e) \<Rightarrow> (G1, Inl e)
      | (G1, Inr V) \<Rightarrow>
          (let d = \<lparr>config = cfg, is_connected = False, status = INACTIVE,
                    state = JObj [], last_published = Map.empty,
                    last_heartbeat = init_time I, error_count = 0, uptime_seconds = 0,
                    validator = V, trace = []\<rparr>
           in case setup_mqtt_client d (tls_result I) of
                (d1, Some e) \<Rightarrow> (G1, Inl e)
              | (d1, None) \<Rightarrow> (G1, Inr d1)))"

section \<open>base\_device.py: callbacks\<close>

definition command_topic :: "BaseDevice \<Rightarrow> string" where
  "command_topic d = ''$aws/things/'' @ device_id (config d) @ ''/shadow/update/delta''"

text \<open>
  \<^verbatim>\<open>_on_connect\<close>. The attributes are assigned before \<^verbatim>\<open>client.subscribe\<close> is
  called, so an exception of that call (which goes to the client's network thread)
  changes none of them.
\<close>

definition on_connect :: "BaseDevice \<Rightarrow> int \<Rightarrow> BaseDevice" where
  "on_connect d rc =
     (if rc = 0 then
        call (d\<lparr>is_connected := True, status := ACTIVE, error_count := 0\<rparr>)
             (Subscribe (command_topic d) 1)
      else d\<lparr>status := ERROR, error_count := error_count d + 1\<rparr>)"

definition on_disconnect :: "BaseDevice \<Rightarrow> int \<Rightarrow> BaseDevice" where
  "on_disconnect d rc = d\<lparr>is_connected := False, status := OFFLINE\<rparr>"

text \<open>Python's \<^verbatim>\<open>"state" in payload\<close> and \<^verbatim>\<open>payload["state"]\<close> on a parsed value.\<close>

fun py_in :: "string \<Rightarrow> json \<Rightarrow> exn + bool" where
  "py_in k (JObj kvs) = Inr (k \<in> fst ` set kvs)"
| "py_in k (JArr xs) = Inr (JStr k \<in> set xs)"
| "py_in k (JStr s) = Inr (str_in k s)"
| "py_in k _ = Inl TypeError"

fun py_getitem :: "json \<Rightarrow> string \<Rightarrow> exn + json" where
  "py_getitem (JObj kvs) k = (case map_of kvs k of None \<Rightarrow> Inl KeyError | Some v \<Rightarrow> Inr v)"
| "py_getitem _ k = Inl TypeError"

record mqtt_msg =
  msg_topic :: string
  msg_payload :: string

text \<open>
  What the subclass's \<^verbatim>\<open>handle_command\<close> does when called: it returns or raises, and
  leaves \<^verbatim>\<open>self.state\<close> as \<open>handle_state\<close>.
\<close>

record cmd_env =
  handle_result :: "exn option"
  handle_state :: json

text \<open>Both handlers of \<^verbatim>\<open>_on_message\<close> only log; what they do not catch leaves.\<close>

definition on_message_except :: "BaseDevice \<Rightarrow> exn \<Rightarrow> BaseDevice \<times> exn option" where
  "on_message_except d e =
     (if e = JSONDecodeError then (d, None)
      else if is_Exception e then (d, None)
      else (d, Some e))"

definition on_message ::
  "libs \<Rightarrow> BaseDevice \<Rightarrow> mqtt_msg \<Rightarrow> cmd_env \<Rightarrow> BaseDevice \<times> exn option" where
  "on_message L d msg C =
     (case json_loads L (msg_payload msg) of
        Inl e \<Rightarrow> on_message_except d e
      | Inr payload \<Rightarrow>
          (case py_in ''state'' payload of
             Inl e \<Rightarrow> on_message_except d e
           | Inr False \<Rightarrow> (d, None)
           | Inr True \<Rightarrow>
               (case py_getitem payload ''state'' of
                  Inl e \<Rightarrow> on_message_except d e
                | Inr desired_state \<Rightarrow>
                    (case validate_command L (validator d) desired_state of
                       (V, Inl e) \<Rightarrow> on_message_except (d\<lparr>validator := V\<rparr>) e
                     | (V, Inr False) \<Rightarrow> (d\<lparr>validator := V\<rparr>, None)
                     | (V, Inr True) \<Rightarrow>
                         (let d1 = (call (d\<lparr>validator := V\<rparr>) (HandleCommand desired_state))
                                     \<lparr>state := handle_state C\<rparr>
                          in case handle_result C of
                               None \<Rightarrow> (d1, None)
                             | Some e \<Rightarrow> on_message_except d1 e)))))"

text \<open>
  The callbacks the client's network thread delivers. An exception that leaves
  \<^verbatim>\<open>_on_message\<close> stays in that thread.
\<close>

datatype callback =
    OnConnect int
  | OnDisconnect int
  | OnMessage mqtt_msg cmd_env

fun deliver :: "libs \<Rightarrow> BaseDevice \<Rightarrow> callback \<Rightarrow> BaseDevice" where
  "deliver L d (OnConnect rc) = on_connect d rc"
| "deliver L d (OnDisconnect rc) = on_disconnect d rc"
| "deliver L d (OnMessage msg C) = fst (on_message L d msg C)"

section \<open>base\_device.py: connection\<close>

text \<open>
  \<^verbatim>\<open>connect\<close>: the outcome of \<^verbatim>\<open>mqtt_client.connect\<close>, the callbacks the network
  thread delivers during \<^verbatim>\<open>time.sleep(2)\<close>, and the outcome of that sleep;
  \<^verbatim>\<open>loop_start\<close> is taken to return. \<^verbatim>\<open>disconnect\<close> only calls the client: the
  attributes change when the disconnect callback arrives.
\<close>

record conn_env =
  mqtt_connect_result :: "exn option"
  wait_callbacks :: "callback list"
  wait_result :: "exn option"

definition connect_except :: "BaseDevice \<Rightarrow> exn \<Rightarrow> BaseDevice \<times> exn option" where
  "connect_except d e =
     (if is_Exception e then (d\<lparr>status := ERROR\<rparr>, Some e) else (d, Some e))"

definition connect :: "libs \<Rightarrow> BaseDevice \<Rightarrow> conn_env \<Rightarrow> BaseDevice \<times> exn option" where
  "connect L d C =
     (let d1 = call d (MqttConnect (mqtt_broker (config d)) (mqtt_port (config d)) 60)
      in case mqtt_connect_result C of
           Some e \<Rightarrow> connect_except d1 e
         | None \<Rightarrow>
             (let d2 = call (call d1 LoopStart) (Sleep 2);
                  d3 = foldl (deliver L) d2 (wait_callbacks C)
              in case wait_result C of
                   Some e \<Rightarrow> connect_except d3 e
                 | None \<Rightarrow>
                     if is_connected d3 then (d3, None)
                     else connect_except d3 Exception))"

record disc_env =
  loop_stop_result :: "exn option"
  mqtt_disconnect_result :: "exn option"

definition disconnect_except :: "BaseDevice \<Rightarrow> exn \<Rightarrow> BaseDevice \<times> exn option" where
  "disconnect_except d e = (if is_Exception e then (d, None) else (d, Some e))"

definition disconnect :: "BaseDevice \<Rightarrow> disc_env \<Rightarrow> BaseDevice \<times> exn option" where
  "disconnect d C =
     (let d1 = call d LoopStop
      in case loop_stop_result C of
           Some e \<Rightarrow> disconnect_except d1 e
         | None \<Rightarrow>
             (let d2 = call d1 MqttDisconnect
              in case mqtt_disconnect_result C of
                   Some e \<Rightarrow> disconnect_except d2 e
                 | None \<Rightarrow> (d2, None)))"

section \<open>base\_device.py: publishing\<close>

definition telemetry_topic :: "BaseDevice \<Rightarrow> string" where
  "telemetry_topic d = ''devices/'' @ device_id (config d) @ ''/telemetry''"

definition alerts_topic :: "BaseDevice \<Rightarrow> string" where
  "alerts_topic d = ''devices/'' @ device_id (config d) @ ''/alerts''"

definition shadow_topic :: "BaseDevice \<Rightarrow> string" where
  "shadow_topic d = ''$aws/things/'' @ device_id (config d) @ ''/shadow/update''"

definition message_type :: "BaseDevice \<Rightarrow> string" where
  "message_type d =
     (if str_in ''sensor'' (device_type (config d)) then ''sensor'' else ''actuator'')"

text \<open>The dictionary built at lines 214 to 219 (and 279 to 284), at clock reading \<open>t\<close>.\<close>

definition build_message :: "BaseDevice \<Rightarrow> rat \<Rightarrow> json \<Rightarrow> json" where
  "build_message d t p =
     JObj [(''device_id'', JStr (device_id (config d))),
           (''timestamp'', JInt (py_int t)),
           (''type'', JStr (message_type d)),
           (''payload'', p)]"

text \<open>
  The clock readings of one \<^verbatim>\<open>publish_telemetry\<close> call (\<^verbatim>\<open>time.time()\<close> at line
  216, \<^verbatim>\<open>datetime.now()\<close> at line 230, \<^verbatim>\<open>time.time()\<close> at line 231) and the outcome
  of \<^verbatim>\<open>mqtt_client.publish\<close>.
\<close>

record pub_env =
  stamp_time :: rat
  publish_result :: "exn option"
  published_at :: rat
  heartbeat_time :: rat

definition publish_telemetry_except :: "BaseDevice \<Rightarrow> exn \<Rightarrow> BaseDevice \<times> exn option" where
  "publish_telemetry_except d e =
     (if is_Exception e then (d\<lparr>error_count := error_count d + 1\<rparr>, None)
      else (d, Some e))"

definition publish_telemetry ::
  "libs \<Rightarrow> BaseDevice \<Rightarrow> json \<Rightarrow> pub_env \<Rightarrow> BaseDevice \<times> exn option" where
  "publish_telemetry L d telemetry_payload P =
     (let topic = telemetry_topic d;
          message = build_message d (stamp_time P) telemetry_payload
      in case validate_telemetry L (validator d) message of
           (V, Inl e) \<Rightarrow> publish_telemetry_except (d\<lparr>validator := V\<rparr>) e
         | (V, Inr False) \<Rightarrow> (d\<lparr>validator := V\<rparr>, None)
         | (V, Inr True) \<Rightarrow>
             (case json_dumps L message of
                Inl e \<Rightarrow> publish_telemetry_except (d\<lparr>validator := V\<rparr>) e
              | Inr payload_json \<Rightarrow>
                  (let d1 = call (d\<lparr>validator := V\<rparr>) (Publish topic payload_json 1)
                   in case publish_result P of
                        Some e \<Rightarrow> publish_telemetry_except d1 e
                      | None \<Rightarrow>
                          (d1\<lparr>last_published := (last_published d1)(topic \<mapsto> published_at P),
                              last_heartbeat := heartbeat_time P,
                              uptime_seconds :=
                                uptime_seconds d1 + publish_interval (config d1)\<rparr>,
                           None))))"

text \<open>\<^verbatim>\<open>dict.update\<close>: an existing key keeps its place, a new key goes to the end.\<close>

fun dict_set :: "(string \<times> json) list \<Rightarrow> string \<Rightarrow> json \<Rightarrow> (string \<times> json) list" where
  "dict_set [] k v = [(k, v)]"
| "dict_set ((k', v') # kvs) k v =
     (if k' = k then (k, v) # kvs else (k', v') # dict_set kvs k v)"

definition dict_update ::
  "(string \<times> json) list \<Rightarrow> (string \<times> json) list \<Rightarrow> (string \<times> json) list" where
  "dict_update d other = foldl (\<lambda>acc kv. dict_set acc (fst kv) (snd kv)) d other"

record alert_env =
  alert_stamp_time :: rat
  alert_publish_result :: "exn option"

definition publish_alert_except :: "BaseDevice \<Rightarrow> exn \<Rightarrow> BaseDevice \<times> exn option" where
  "publish_alert_except d e = (if is_Exception e then (d, None) else (d, Some e))"

definition publish_alert ::
  "libs \<Rightarrow> BaseDevice \<Rightarrow> string \<Rightarrow> string \<Rightarrow> (string \<times> json) list option \<Rightarrow> alert_env \<Rightarrow>
     BaseDevice \<times> exn option" where
  "publish_alert L d alert_status severity additional_data A =
     (let topic = alerts_topic d;
          alert_payload0 = [(''status'', JStr alert_status), (''severity'', JStr severity)];
          alert_payload =
            (case additional_data of
               None \<Rightarrow> alert_payload0
             | Some extra \<Rightarrow>
                 if extra = [] then alert_payload0 else dict_update alert_payload0 extra);
          message = build_message d (alert_stamp_time A) (JObj alert_payload)
      in case validate_alert L (validator d) message of
           (V, Inl e) \<Rightarrow> publish_alert_except (d\<lparr>validator := V\<rparr>) e
         | (V, Inr False) \<Rightarrow> (d\<lparr>validator := V\<rparr>, None)
         | (V, Inr True) \<Rightarrow>
             (case json_dumps L message of
                Inl e \<Rightarrow> publish_alert_except (d\<lparr>validator := V\<rparr>) e
              | Inr payload_json \<Rightarrow>
                  (let d1 = call (d\<lparr>validator := V\<rparr>) (Publish topic payload_json 1)
                   in case alert_publish_result A of
                        Some e \<Rightarrow> publish_alert_except d1 e
                      | None \<Rightarrow> (d1, None))))"

definition update_shadow_except :: "BaseDevice \<Rightarrow> exn \<Rightarrow> BaseDevice \<times> exn option" where
  "update_shadow_except d e = (if is_Exception e then (d, None) else (d, Some e))"

definition update_shadow ::
  "libs \<Rightarrow> BaseDevice \<Rightarrow> json \<Rightarrow> exn option \<Rightarrow> BaseDevice \<times> exn option" where
  "update_shadow L d reported_state r =
     (let shadow_update = JObj [(''state'', JObj [(''reported'', reported_state)])];
          topic = shadow_topic d
      in case json_dumps L shadow_update of
           Inl e \<Rightarrow> update_shadow_except d e
         | Inr payload \<Rightarrow>
             (let d1 = call d (Publish topic payload 1)
              in case r of
                   Some e \<Rightarrow> update_shadow_except d1 e
                 | None \<Rightarrow> (d1, None)))"

section \<open>base\_device.py: the main loop\<close>

text \<open>
  What the collaborators do during one pass of the \<^verbatim>\<open>while\<close> body: the subclass's
  \<^verbatim>\<open>generate_telemetry\<close> returns a payload or raises and leaves \<^verbatim>\<open>self.state\<close> as
  \<open>gen_state\<close>; then the environment of \<^verbatim>\<open>publish_telemetry\<close>, the outcome of the
  publish inside \<^verbatim>\<open>update_shadow\<close>, the outcome of \<^verbatim>\<open>time.sleep\<close> in the
  \<^verbatim>\<open>try\<close> body and of \<^verbatim>\<open>time.sleep\<close> in the handler.
\<close>

record iter_env =
  gen_result :: "exn + json"
  gen_state :: json
  telemetry_env :: pub_env
  shadow_result :: "exn option"
  sleep_result :: "exn option"
  handler_sleep_result :: "exn option"

definition sleep :: "BaseDevice \<Rightarrow> int \<Rightarrow> exn option \<Rightarrow> BaseDevice \<times> exn option" where
  "sleep d interval r = (call d (Sleep interval), r)"

text \<open>The handler at lines 386 to 389; an exception of its own sleep leaves the loop.\<close>

definition loop_except ::
  "BaseDevice \<Rightarrow> int \<Rightarrow> iter_env \<Rightarrow> exn \<Rightarrow> BaseDevice \<times> exn option" where
  "loop_except d interval I e =
     (if is_Exception e then
        sleep (d\<lparr>error_count := error_count d + 1\<rparr>) interval (handler_sleep_result I)
      else (d, Some e))"

definition iteration ::
  "libs \<Rightarrow> int \<Rightarrow> BaseDevice \<Rightarrow> iter_env \<Rightarrow> BaseDevice \<times> exn option" where
  "iteration L interval d I =
     (let d0 = d\<lparr>state := gen_state I\<rparr>
      in case gen_result I of
           Inl e \<Rightarrow> loop_except d0 interval I e
         | Inr telemetry \<Rightarrow>
             (case publish_telemetry L d0 telemetry (telemetry_env I) of
                (d1, Some e) \<Rightarrow> loop_except d1 interval I e
              | (d1, None) \<Rightarrow>
                  (case update_shadow L d1 (state d1) (shadow_result I) of
                     (d2, Some e) \<Rightarrow> loop_except d2 interval I e
                   | (d2, None) \<Rightarrow>
                       (case sleep d2 interval (sleep_result I) of
                          (d3, Some e) \<Rightarrow> loop_except d3 interval I e
                        | (d3, None) \<Rightarrow> (d3, None)))))"

text \<open>
  The \<^verbatim>\<open>while self.is_connected\<close> loop, run against a script: for each pass the
  environment of the body and the callbacks the network thread delivers before the
  next test of the condition. The result is the state when the statement is left and
  the exception that leaves it, if any; \<open>None\<close> when the script ends with the loop
  still running.
\<close>

fun run_loop ::
  "libs \<Rightarrow> int \<Rightarrow> BaseDevice \<Rightarrow> (iter_env \<times> callback list) list \<Rightarrow>
     (BaseDevice \<times> exn option) option" where
  "run_loop L interval d [] = (if is_connected d then None else Some (d, None))"
| "run_loop L interval d ((I, cbs) # rest) =
     (if is_connected d then
        (case iteration L interval d I of
           (d1, Some e) \<Rightarrow> Some (d1, Some e)
         | (d1, None) \<Rightarrow> run_loop L interval (foldl (deliver L) d1 cbs) rest)
      else Some (d, None))"

text \<open>\<^verbatim>\<open>publish_interval or self.config.publish_interval\<close>: \<^verbatim>\<open>None\<close> and \<^verbatim>\<open>0\<close> are falsy.\<close>

definition run_interval :: "BaseDevice \<Rightarrow> int option \<Rightarrow> int" where
  "run_interval d publish_interval' =
     (case publish_interval' of
        None \<Rightarrow> publish_interval (config d)
      | Some n \<Rightarrow> if n = 0 then publish_interval (config d) else n)"

text \<open>
  The outer \<^verbatim>\<open>try\<close>: \<^verbatim>\<open>KeyboardInterrupt\<close> and \<^verbatim>\<open>Exception\<close> are caught, anything
  else stays in flight; the \<^verbatim>\<open>finally\<close> clause calls \<^verbatim>\<open>disconnect\<close>, and an
  exception of that call replaces the one in flight.
\<close>

definition run_except :: "exn option \<Rightarrow> exn option" where
  "run_except r =
     (case r of
        None \<Rightarrow> None
      | Some e \<Rightarrow>
          if e = KeyboardInterrupt then None
          else if is_Exception e then None
          else Some e)"

definition run ::
  "libs \<Rightarrow> BaseDevice \<Rightarrow> int option \<Rightarrow> (iter_env \<times> callback list) list \<Rightarrow> disc_env \<Rightarrow>
     (BaseDevice \<times> exn option) option" where
  "run L d publish_interval' script D =
     (case run_loop L (run_interval d publish_interval') d script of
        None \<Rightarrow> None
      | Some (d1, r) \<Rightarrow>
          (case disconnect d1 D of
             (d2, Some e) \<Rightarrow> Some (d2, Some e)
           | (d2, None) \<Rightarrow> Some (d2, run_except r)))"

section \<open>Sessions as sequences of events\<close>

text \<open>
  A session is a device after \<^verbatim>\<open>__init__\<close> followed by any sequence of callbacks and
  method calls, each with what its collaborators do. A callback or a call is one step:
  the code takes no lock, and a callback that runs in the middle of a method is outside
  this model (\<^verbatim>\<open>connect\<close>, which waits for its callbacks, apart). The subclass's
  \<^verbatim>\<open>generate_telemetry\<close> and \<^verbatim>\<open>handle_command\<close> are taken to assign
  \<^verbatim>\<open>self.state\<close> only.
\<close>

datatype event =
    EvCallback callback
  | EvConnect conn_env
  | EvDisconnect disc_env
  | EvPublishTelemetry json pub_env
  | EvPublishAlert string string "(string \<times> json) list option" alert_env
  | EvUpdateShadow json "exn option"
  | EvIteration int iter_env

fun step :: "libs \<Rightarrow> BaseDevice \<Rightarrow> event \<Rightarrow> BaseDevice" where
  "step L d (EvCallback cb) = deliver L d cb"
| "step L d (EvConnect C) = fst (connect L d C)"
| "step L d (EvDisconnect C) = fst (disconnect d C)"
| "step L d (EvPublishTelemetry p P) = fst (publish_telemetry L d p P)"
| "step L d (EvPublishAlert s v x A) = fst (publish_alert L d s v x A)"
| "step L d (EvUpdateShadow r x) = fst (update_shadow L d r x)"
| "step L d (EvIteration i I) = fst (iteration L i d I)"

definition exec :: "libs \<Rightarrow> BaseDevice \<Rightarrow> event list \<Rightarrow> BaseDevice" where
  "exec L d evs = foldl (step L) d evs"



text \<open>
  The events that assign \<^verbatim>\<open>self.status\<close>: a connect or disconnect callback, and a
  \<^verbatim>\<open>connect\<close> call that delivers such a callback, reaches its test of
  \<^verbatim>\<open>is_connected\<close>, or ends in its \<^verbatim>\<open>except Exception\<close> handler.
\<close>

fun status_callback :: "callback \<Rightarrow> bool" where
  "status_callback (OnConnect rc) = True"
| "status_callback (OnDisconnect rc) = True"
| "status_callback (OnMessage msg C) = False"

fun connection_event :: "event \<Rightarrow> bool" where
  "connection_event (EvCallback cb) = status_callback cb"
| "connection_event (EvConnect C) =
     (case mqtt_connect_result C of
        Some e \<Rightarrow> is_Exception e
      | None \<Rightarrow>
          list_ex status_callback (wait_callbacks C) \<or>
          (case wait_result C of Some e \<Rightarrow> is_Exception e | None \<Rightarrow> True))"
| "connection_event _ = False"

text \<open>How the status and the connection flag go together in a session.\<close>

definition status_consistent :: "BaseDevice \<Rightarrow> bool" where
  "status_consistent d =
     ((status d = ACTIVE \<longrightarrow> is_connected d) \<and>
      (status d = OFFLINE \<longrightarrow> \<not> is_connected d) \<and>
      (status d = INACTIVE \<longrightarrow> \<not> is_connected d))"

section \<open>Concrete collaborators for the scenarios\<close>

text \<open>
  Modelled from the spec: the schema files under \<^verbatim>\<open>backend/docs/mqtt/schemas\<close> and
  the \<^verbatim>\<open>jsonschema\<close> library are not among the sources. Section 6 of the
  specification gives the envelope as \<^verbatim>\<open>{device_id, timestamp, type, payload}\<close> and the
  command as \<^verbatim>\<open>{request_id, action, parameters}\<close>; the schemas below require exactly
  these fields with these types, and \<open>required_validate\<close> is a checker for
  such schemas: the instance must be an object that has every required key, and each
  listed property that is present must have the listed type.
\<close>

definition spec_telemetry_schema :: json where
  "spec_telemetry_schema =
     JObj [(''type'', JStr ''object''),
           (''required'', JArr [JStr ''device_id'', JStr ''timestamp'', JStr ''type'',
                                JStr ''payload'']),
           (''properties'',
              JObj [(''device_id'', JObj [(''type'', JStr ''string'')]),
                    (''timestamp'', JObj [(''type'', JStr ''integer'')]),
                    (''type'', JObj [(''type'', JStr ''string'')]),
                    (''payload'', JObj [(''type'', JStr ''object'')])])]"

definition spec_command_schema :: json where
  "spec_command_schema =
     JObj [(''type'', JStr ''object''),
           (''required'', JArr [JStr ''request_id'', JStr ''action'', JStr ''parameters'']),
           (''properties'',
              JObj [(''request_id'', JObj [(''type'', JStr ''string'')]),
                    (''action'', JObj [(''type'', JStr ''string'')]),
                    (''parameters'', JObj [(''type'', JStr ''object'')])])]"

fun has_key :: "(string \<times> json) list \<Rightarrow> json \<Rightarrow> bool" where
  "has_key kvs (JStr k) = (map_of kvs k \<noteq> None)"
| "has_key kvs _ = False"

fun type_ok :: "json \<Rightarrow> json \<Rightarrow> bool" where
  "type_ok (JStr t) v =
     (if t = ''object'' then (case v of JObj _ \<Rightarrow> True | _ \<Rightarrow> False)
      else if t = ''string'' then (case v of JStr _ \<Rightarrow> True | _ \<Rightarrow> False)
      else if t = ''integer'' then (case v of JInt _ \<Rightarrow> True | _ \<Rightarrow> False)
      else True)"
| "type_ok _ v = True"

fun prop_ok :: "(string \<times> json) list \<Rightarrow> string \<times> json \<Rightarrow> bool" where
  "prop_ok kvs (k, JObj sub) =
     (case map_of kvs k of
        None \<Rightarrow> True
      | Some v \<Rightarrow> (case map_of sub ''type'' of None \<Rightarrow> True | Some t \<Rightarrow> type_ok t v))"
| "prop_ok kvs (k, _) = True"

definition required_ok :: "(string \<times> json) list \<Rightarrow> (string \<times> json) list \<Rightarrow> bool" where
  "required_ok kvs schema =
     (case map_of schema ''required'' of
        Some (JArr names) \<Rightarrow> list_all (has_key kvs) names
      | _ \<Rightarrow> True)"

definition properties_ok :: "(string \<times> json) list \<Rightarrow> (string \<times> json) list \<Rightarrow> bool" where
  "properties_ok kvs schema =
     (case map_of schema ''properties'' of
        Some (JObj props) \<Rightarrow> list_all (prop_ok kvs) props
      | _ \<Rightarrow> True)"

fun required_validate :: "json \<Rightarrow> json \<Rightarrow> exn option" where
  "required_validate (JObj kvs) (JObj schema) =
     (if required_ok kvs schema \<and> properties_ok kvs schema then None
      else Some ValidationError)"
| "required_validate _ (JObj schema) = Some ValidationError"
| "required_validate _ _ = Some Exception"

text \<open>A schema directory where the alert schema is missing.\<close>

definition test_files :: validator_env where
  "test_files =
     \<lparr>module_dir = ''/app/simulators'',
      read_json = (\<lambda>path.
        if path = ''/app/simulators/../../backend/docs/mqtt/schemas/telemetry.schema.json''
        then Inr spec_telemetry_schema
        else if path = ''/app/simulators/../../backend/docs/mqtt/schemas/command.schema.json''
        then Inr spec_command_schema
        else Inl FileNotFoundError)\<rparr>"

text \<open>A schema directory whose files cannot be read (\<^verbatim>\<open>open\<close> raises another error).\<close>

definition unreadable_files :: validator_env where
  "unreadable_files = \<lparr>module_dir = ''/app/simulators'', read_json = (\<lambda>path. Inl Exception)\<rparr>"

definition test_validator :: SchemaValidator where
  "test_validator =
     \<lparr>obj_id = 0,
      schema_dir = ''/app/simulators/../../backend/docs/mqtt/schemas'',
      schemas = [''telemetry'' \<mapsto> spec_telemetry_schema, ''command'' \<mapsto> spec_command_schema]\<rparr>"

text \<open>The scenario of section 8: device \<^verbatim>\<open>device-1\<close> of type \<^verbatim>\<open>temperature_sensor\<close>.\<close>

definition scenario_config :: DeviceConfig where
  "scenario_config =
     \<lparr>device_id = ''device-1'', device_name = ''Temperature Sensor'',
      device_type = ''temperature_sensor'', location = ''Living Room'',
      sensor_type = ''temperature_sensor'', ca_cert = ''ca.pem'',
      client_cert = ''cert.pem'', client_key = ''key.pem'',
      mqtt_broker = ''iot.us-east-1.amazonaws.com'', mqtt_port = 8883,
      publish_interval = 5\<rparr>"

definition scenario_init :: init_env where
  "scenario_init = \<lparr>init_time = 1701647990, tls_result = None\<rparr>"

definition scenario_device :: BaseDevice where
  "scenario_device =
     \<lparr>config = scenario_config, is_connected = False, status = INACTIVE,
      state = JObj [], last_published = Map.empty, last_heartbeat = 1701647990,
      error_count = 0, uptime_seconds = 0, validator = test_validator,
      trace = [TlsSet ''ca.pem'' ''cert.pem'' ''key.pem'']\<rparr>"

definition scenario_payload :: json where
  "scenario_payload = JObj [(''temperature'', JFloat 22.5), (''unit'', JStr ''celsius'')]"

definition scenario_envelope :: json where
  "scenario_envelope =
     JObj [(''device_id'', JStr ''device-1''),
           (''timestamp'', JInt 1701648000),
           (''type'', JStr ''sensor''),
           (''payload'', JObj [(''temperature'', JFloat 22.5), (''unit'', JStr ''celsius'')])]"

definition scenario_text :: string where
  \<open>scenario_text =
     ''{"device_id": "device-1", "timestamp": 1701648000, "type": "sensor", "payload": {"temperature": 22.5, "unit": "celsius"}}''\<close>

definition empty_shadow :: json where
  "empty_shadow = JObj [(''state'', JObj [(''reported'', JObj [])])]"

definition empty_shadow_text :: string where
  \<open>empty_shadow_text = ''{"state": {"reported": {}}}''\<close>

definition lock_delta_text :: string where
  \<open>lock_delta_text = ''{"state": {"action": "LOCK"}}''\<close>

definition lock_delta :: json where
  "lock_delta = JObj [(''state'', JObj [(''action'', JStr ''LOCK'')])]"

definition lock_command :: json where
  "lock_command =
     JObj [(''request_id'', JStr ''cmd-1''), (''action'', JStr ''LOCK''),
           (''parameters'', JObj [(''force'', JBool False)])]"

definition lock_command_delta :: json where
  "lock_command_delta = JObj [(''state'', lock_command)]"

definition lock_command_text :: string where
  \<open>lock_command_text =
     ''{"state": {"request_id": "cmd-1", "action": "LOCK", "parameters": {"force": false}}}''\<close>

text \<open>
  The two documents of the scenarios with the text \<^verbatim>\<open>json.dumps\<close> gives for them, and
  the two inbound texts with the values \<^verbatim>\<open>json.loads\<close> gives for them.
\<close>

definition test_libs :: libs where
  "test_libs =
     \<lparr>jsonschema_validate = required_validate,
      json_dumps = (\<lambda>j.
        if j = scenario_envelope then Inr scenario_text
        else if j = empty_shadow then Inr empty_shadow_text
        else Inl TypeError),
      json_loads = (\<lambda>s.
        if s = lock_delta_text then Inr lock_delta
        else if s = lock_command_text then Inr lock_command_delta
        else Inl JSONDecodeError)\<rparr>"

text \<open>The device of the scenario after a connect acknowledgement with return code 0.\<close>

definition scenario_online :: BaseDevice where
  "scenario_online = on_connect scenario_device 0"

definition scenario_pub :: pub_env where
  "scenario_pub =
     \<lparr>stamp_time = 1701648000, publish_result = None,
      published_at = 1701648000, heartbeat_time = 1701648000\<rparr>"

definition failing_pub :: pub_env where
  "failing_pub = scenario_pub\<lparr>publish_result := Some Exception\<rparr>"

text \<open>
  One pass of the loop in which everything returns except the publish inside
  \<^verbatim>\<open>update_shadow\<close>, and one in which \<^verbatim>\<open>generate_telemetry\<close> raises.
\<close>

definition shadow_failing :: iter_env where
  "shadow_failing =
     \<lparr>gen_result = Inr scenario_payload, gen_state = JObj [], telemetry_env = scenario_pub,
      shadow_result = Some Exception, sleep_result = None, handler_sleep_result = None\<rparr>"

definition gen_failing :: iter_env where
  "gen_failing =
     \<lparr>gen_result = Inl Exception, gen_state = JObj [], telemetry_env = scenario_pub,
      shadow_result = None, sleep_result = None, handler_sleep_result = None\<rparr>"

definition clean_disconnect :: disc_env where
  "clean_disconnect = \<lparr>loop_stop_result = None, mqtt_disconnect_result = None\<rparr>"




definition rewriting_validate :: "nat validate_call" where
  "rewriting_validate n m sch = (required_validate m sch, m, JNull, Suc n)"

section \<open>Strings\<close>

text \<open>\<open>str_in\<close> is the substring relation.\<close>

lemma str_in_iff: "str_in s t \<longleftrightarrow> (\<exists>p q. t = p @ s @ q)"
proof (induction t)
  case Nil
  then show ?case by auto
next
  case (Cons c cs)
  show ?case
  proof
    assume "str_in s (c # cs)"
    then consider "take (length s) (c # cs) = s" | "str_in s cs" by auto
    then show "\<exists>p q. c # cs = p @ s @ q"
    proof cases
      case 1
      then have "c # cs = [] @ s @ drop (length s) (c # cs)"
        by (metis append_Nil append_take_drop_id)
      then show ?thesis by blast
    next
      case 2
      then obtain p q where "cs = p @ s @ q" using Cons.IH by blast
      then have "c # cs = (c # p) @ s @ q" by simp
      then show ?thesis by blast
    qed
  next
    assume "\<exists>p q. c # cs = p @ s @ q"
    then obtain p q where pq: "c # cs = p @ s @ q" by blast
    show "str_in s (c # cs)"
    proof (cases p)
      case Nil
      then have "take (length s) (c # cs) = s" using pq by simp
      then show ?thesis by simp
    next
      case (Cons a p')
      then have "cs = p' @ s @ q" using pq by simp
      then show ?thesis using Cons.IH by auto
    qed
  qed
qed

section \<open>The validator\<close>

lemma validate_fst: "fst (validate L V M S) = V"
  by (simp add: validate_def split: option.splits)

lemma validate_absent: "schemas V S = None \<Longrightarrow> validate L V M S = (V, Inr False)"
  by (simp add: validate_def)

lemma validate_present:
  "schemas V S = Some sch \<Longrightarrow>
   validate L V M S =
     (V, case jsonschema_validate L M sch of
           None \<Rightarrow> Inr True
         | Some e \<Rightarrow> if is_Exception e then Inr False else Inl e)"
  by (auto simp: validate_def split: option.splits)

lemma validate_True_iff:
  "snd (validate L V M S) = Inr True \<longleftrightarrow>
     (\<exists>sch. schemas V S = Some sch \<and> jsonschema_validate L M sch = None)"
  by (auto simp: validate_def split: option.splits)

lemma validate_raises_iff:
  "snd (validate L V M S) = Inl e \<longleftrightarrow>
     (\<exists>sch. schemas V S = Some sch \<and> jsonschema_validate L M sch = Some e \<and> \<not> is_Exception e)"
  by (auto simp: validate_def split: option.splits)

lemma load_schema_dir: "load_schema E V nf = Inr V' \<Longrightarrow> schema_dir V' = schema_dir V \<and> obj_id V' = obj_id V"
  by (auto simp: load_schema_def split: sum.splits if_splits)

lemma load_schema_schemas:
  "load_schema E V nf = Inr V' \<Longrightarrow>
   schemas V' = (case read_json E (path_join (schema_dir V) (snd nf)) of
                   Inr s \<Rightarrow> (schemas V)(fst nf \<mapsto> s) | Inl e \<Rightarrow> schemas V)"
  by (auto simp: load_schema_def split: sum.splits if_splits)


lemma load_loop_schemas:
  "load_loop E V xs = Inr V' \<Longrightarrow> distinct (map fst xs) \<Longrightarrow>
   schema_dir V' = schema_dir V \<and> obj_id V' = obj_id V \<and>
   schemas V' name =
     (case find (\<lambda>nf. fst nf = name) xs of
        None \<Rightarrow> schemas V name
      | Some nf \<Rightarrow>
          (case read_json E (path_join (schema_dir V) (snd nf)) of
             Inr s \<Rightarrow> Some s
           | Inl e \<Rightarrow> schemas V name))"
proof (induction xs arbitrary: V)
  case Nil
  then show ?case by simp
next
  case (Cons nf rest)
  from Cons.prems(1) obtain V1 where
    V1: "load_schema E V nf = Inr V1" and rest: "load_loop E V1 rest = Inr V'"
    by (auto split: sum.splits)
  from Cons.prems(2) have d: "distinct (map fst rest)" by simp
  from Cons.prems(2) have "fst nf \<notin> fst ` set rest" by simp
  then have nin: "\<forall>x\<in>set rest. fst x \<noteq> fst nf" by (metis imageI)
  from Cons.IH [OF rest d] have
    ih1: "schema_dir V' = schema_dir V1" and ih2: "obj_id V' = obj_id V1" and
    ih3: "schemas V' name =
     (case find (\<lambda>nf. fst nf = name) rest of
        None \<Rightarrow> schemas V1 name
      | Some nf \<Rightarrow>
          (case read_json E (path_join (schema_dir V1) (snd nf)) of
             Inr s \<Rightarrow> Some s
           | Inl e \<Rightarrow> schemas V1 name))"
    by simp_all
  from load_schema_dir [OF V1] have
    dir: "schema_dir V1 = schema_dir V" and oid: "obj_id V1 = obj_id V"
    by simp_all
  note sch = load_schema_schemas [OF V1]
  show ?case
  proof (cases "fst nf = name")
    case True
    then have "find (\<lambda>nf. fst nf = name) rest = None"
      using nin by (force simp: find_None_iff)
    then show ?thesis using ih1 ih2 ih3 dir oid sch True
      by (cases "read_json E (path_join (schema_dir V) (snd nf))") simp_all
  next
    case False
    then have "schemas V1 name = schemas V name"
      using sch by (cases "read_json E (path_join (schema_dir V) (snd nf))") simp_all
    then show ?thesis using ih1 ih2 ih3 dir oid False
      by (simp split: option.splits sum.splits)
  qed
qed

lemma init_load_loop:
  "SchemaValidator_init oid E sdir = Inr V \<Longrightarrow>
   load_loop E \<lparr>obj_id = oid, schema_dir = path_join (module_dir E) sdir, schemas = Map.empty\<rparr>
     schema_files = Inr V"
  by (simp add: SchemaValidator_init_def load_schemas_def)

lemma schema_files_distinct: "distinct (map fst schema_files)"
  by (simp add: schema_files_def)

lemma init_schemas:
  assumes "SchemaValidator_init oid E sdir = Inr V" and "(name, file) \<in> set schema_files"
  shows "schemas V name =
        (case read_json E (path_join (path_join (module_dir E) sdir) file) of
           Inr s \<Rightarrow> Some s | Inl e \<Rightarrow> None)"
proof -
  have f: "find (\<lambda>nf. fst nf = name) schema_files = Some (name, file)"
    using assms(2) by (auto simp: schema_files_def)
  from load_loop_schemas [OF init_load_loop [OF assms(1)] schema_files_distinct, of name]
  show ?thesis by (simp add: f split: sum.splits)
qed

lemma init_obj_id:
  assumes "SchemaValidator_init oid E sdir = Inr V"
  shows "obj_id V = oid"
  using load_loop_schemas [OF init_load_loop [OF assms] schema_files_distinct, of undefined]
  by simp

lemma load_schema_result:
  "load_schema E V nf =
     (case read_json E (path_join (schema_dir V) (snd nf)) of
        Inr s \<Rightarrow> Inr (V\<lparr>schemas := (schemas V)(fst nf \<mapsto> s)\<rparr>)
      | Inl e \<Rightarrow> if e = FileNotFoundError \<or> e = JSONDecodeError then Inr V else Inl e)"
  by (simp add: load_schema_def split: sum.splits)

lemma load_loop_returns:
  "(\<forall>nf\<in>set xs.
      case read_json E (path_join (schema_dir V) (snd nf)) of
        Inr s \<Rightarrow> True
      | Inl e \<Rightarrow> e = FileNotFoundError \<or> e = JSONDecodeError) \<Longrightarrow>
   \<exists>V'. load_loop E V xs = Inr V'"
proof (induction xs arbitrary: V)
  case Nil
  then show ?case by simp
next
  case (Cons nf rest)
  from Cons.prems have
    "case read_json E (path_join (schema_dir V) (snd nf)) of
        Inr s \<Rightarrow> True
      | Inl e \<Rightarrow> e = FileNotFoundError \<or> e = JSONDecodeError"
    by simp
  then obtain V1 where V1: "load_schema E V nf = Inr V1"
    by (cases "read_json E (path_join (schema_dir V) (snd nf))")
      (simp_all add: load_schema_result)
  then have "schema_dir V1 = schema_dir V" using load_schema_dir by blast
  with Cons.prems have "\<forall>nf\<in>set rest.
      case read_json E (path_join (schema_dir V1) (snd nf)) of
        Inr s \<Rightarrow> True
      | Inl e \<Rightarrow> e = FileNotFoundError \<or> e = JSONDecodeError"
    by simp
  from Cons.IH [OF this] V1 show ?case by simp
qed

lemma load_loop_raises:
  "load_loop E V xs = Inl e \<Longrightarrow>
   e \<noteq> FileNotFoundError \<and> e \<noteq> JSONDecodeError \<and>
   (\<exists>nf\<in>set xs. read_json E (path_join (schema_dir V) (snd nf)) = Inl e)"
proof (induction xs arbitrary: V)
  case Nil
  then show ?case by simp
next
  case (Cons nf rest)
  show ?case
  proof (cases "load_schema E V nf")
    case (Inl e')
    with Cons.prems have e: "e' = e" by simp
    from Inl have "read_json E (path_join (schema_dir V) (snd nf)) = Inl e' \<and>
        e' \<noteq> FileNotFoundError \<and> e' \<noteq> JSONDecodeError"
      by (cases "read_json E (path_join (schema_dir V) (snd nf))")
        (auto simp: load_schema_result split: if_splits)
    with e show ?thesis by simp
  next
    case (Inr V1)
    with Cons.prems have "load_loop E V1 rest = Inl e" by simp
    from Cons.IH [OF this] load_schema_dir [OF Inr] show ?thesis by auto
  qed
qed

lemma init_returns:
  "(\<forall>fname\<in>snd ` set schema_files.
      case read_json E (schema_path E fname) of
        Inr s \<Rightarrow> True
      | Inl e \<Rightarrow> e = FileNotFoundError \<or> e = JSONDecodeError) \<Longrightarrow>
   \<exists>V. SchemaValidator_init oid E default_schema_dir = Inr V"
  unfolding SchemaValidator_init_def load_schemas_def schema_path_def
  by (rule load_loop_returns) simp

lemma init_raises:
  "SchemaValidator_init oid E default_schema_dir = Inl e \<Longrightarrow>
   e \<noteq> FileNotFoundError \<and> e \<noteq> JSONDecodeError \<and>
   (\<exists>fname\<in>snd ` set schema_files. read_json E (schema_path E fname) = Inl e)"
  unfolding SchemaValidator_init_def load_schemas_def schema_path_def
  by (drule load_loop_raises) auto

section \<open>The scenario collaborators, evaluated\<close>

lemma test_init:
  "SchemaValidator_init 0 test_files default_schema_dir = Inr test_validator"
  by (simp add: SchemaValidator_init_def load_schemas_def schema_files_def load_schema_def
      test_files_def default_schema_dir_def test_validator_def path_join_def)

lemma envelope_valid: "required_validate scenario_envelope spec_telemetry_schema = None"
  by (simp add: scenario_envelope_def spec_telemetry_schema_def required_ok_def properties_ok_def)

lemma lock_invalid:
  "required_validate (JObj [(''action'', JStr ''LOCK'')]) spec_command_schema = Some ValidationError"
  by (simp add: spec_command_schema_def required_ok_def properties_ok_def)

lemma test_schemas:
  "schemas test_validator ''telemetry'' = Some spec_telemetry_schema"
  "schemas test_validator ''command'' = Some spec_command_schema"
  "schemas test_validator ''alert'' = None"
  by (simp_all add: test_validator_def)

lemma test_libs_validate: "jsonschema_validate test_libs = required_validate"
  by (simp add: test_libs_def)

lemma shadow_failing_fields:
  "gen_result shadow_failing = Inr scenario_payload" "gen_state shadow_failing = JObj []"
  "telemetry_env shadow_failing = scenario_pub" "shadow_result shadow_failing = Some Exception"
  "sleep_result shadow_failing = None" "handler_sleep_result shadow_failing = None"
  by (simp_all add: shadow_failing_def)

lemma gen_failing_fields:
  "gen_result gen_failing = Inl Exception" "gen_state gen_failing = JObj []"
  "handler_sleep_result gen_failing = None"
  by (simp_all add: gen_failing_def)

lemma alert_missing:
  "read_json test_files (schema_path test_files ''alert.schema.json'') = Inl FileNotFoundError"
  by (simp add: test_files_def schema_path_def default_schema_dir_def path_join_def)

lemma test_files_readable:
  "\<forall>fname\<in>snd ` set schema_files.
      case read_json test_files (schema_path test_files fname) of
        Inr s \<Rightarrow> True
      | Inl e \<Rightarrow> e = FileNotFoundError \<or> e = JSONDecodeError"
  by (simp add: schema_files_def test_files_def schema_path_def default_schema_dir_def
      path_join_def)

lemma unreadable_init:
  "SchemaValidator_init 0 unreadable_files default_schema_dir = Inl Exception"
  by (simp add: SchemaValidator_init_def load_schemas_def schema_files_def load_schema_def
      unreadable_files_def)





text \<open>
  With a library call that overwrites the schema it is given, the second validation of
  the same message disagrees with the first.
\<close>

lemma envelope_null_schema: "required_validate scenario_envelope JNull = Some Exception"
  by (simp add: scenario_envelope_def)

lemma rewriting_library_disagrees:
  "validate_effects rewriting_validate 0 test_validator scenario_envelope ''telemetry'' =
     (Inr True, test_validator\<lparr>schemas := (schemas test_validator)(''telemetry'' \<mapsto> JNull)\<rparr>,
      scenario_envelope, 1) \<and>
   fst (validate_effects rewriting_validate 1
          (test_validator\<lparr>schemas := (schemas test_validator)(''telemetry'' \<mapsto> JNull)\<rparr>)
          scenario_envelope ''telemetry'') = Inr False"
  by (simp add: validate_effects_def test_schemas rewriting_validate_def envelope_valid Let_def
      envelope_null_schema)

section \<open>Claims about the validator\<close>

text \<open>
  Claim C3. For every message \<open>M\<close> and schema name \<open>S\<close>, \<^verbatim>\<open>_validate\<close> returns
  false when schema \<open>S\<close> is not loaded, returns false when \<^verbatim>\<open>jsonschema.validate\<close>
  raises \<^verbatim>\<open>ValidationError\<close> (and for any other \<^verbatim>\<open>Exception\<close> it raises), and returns
  true exactly when the schema is loaded and \<^verbatim>\<open>jsonschema.validate\<close> returns; in each
  of these cases the result is a boolean, not an exception. For a validator constructed
  with the default directory: a schema file that is missing (\<^verbatim>\<open>FileNotFoundError\<close>) or
  malformed (\<^verbatim>\<open>JSONDecodeError\<close>) leaves that schema absent, so that every message is
  rejected under it; the constructor returns a validator whenever every schema file is
  read, missing or malformed; and it raises only the error of a file read that is
  neither, in which case there is no validator at all.
\<close>

theorem validate_fail_closed:
  "(schemas V S = None \<longrightarrow> validate L V M S = (V, Inr False)) \<and>
   (\<forall>sch. schemas V S = Some sch \<and> jsonschema_validate L M sch = Some ValidationError \<longrightarrow>
      validate L V M S = (V, Inr False)) \<and>
   (\<forall>sch e. schemas V S = Some sch \<and> jsonschema_validate L M sch = Some e \<and> is_Exception e \<longrightarrow>
      validate L V M S = (V, Inr False)) \<and>
   (snd (validate L V M S) = Inr True \<longleftrightarrow>
      (\<exists>sch. schemas V S = Some sch \<and> jsonschema_validate L M sch = None)) \<and>
   (\<forall>oid E fname e.
      SchemaValidator_init oid E default_schema_dir = Inr V \<and> (S, fname) \<in> set schema_files \<and>
      read_json E (schema_path E fname) = Inl e \<and>
      (e = FileNotFoundError \<or> e = JSONDecodeError) \<longrightarrow>
      schemas V S = None \<and> validate L V M S = (V, Inr False)) \<and>
   (\<forall>oid E.
      (\<forall>fname\<in>snd ` set schema_files.
         case read_json E (schema_path E fname) of
           Inr s \<Rightarrow> True
         | Inl e \<Rightarrow> e = FileNotFoundError \<or> e = JSONDecodeError) \<longrightarrow>
      (\<exists>V0. SchemaValidator_init oid E default_schema_dir = Inr V0)) \<and>
   (\<forall>oid E e.
      SchemaValidator_init oid E default_schema_dir = Inl e \<longrightarrow>
      e \<noteq> FileNotFoundError \<and> e \<noteq> JSONDecodeError \<and>
      (\<exists>fname\<in>snd ` set schema_files. read_json E (schema_path E fname) = Inl e))"
proof (intro conjI allI impI)
  show "validate L V M S = (V, Inr False)" if "schemas V S = None"
    using that by (rule validate_absent)
next
  fix sch
  assume "schemas V S = Some sch \<and> jsonschema_validate L M sch = Some ValidationError"
  then show "validate L V M S = (V, Inr False)"
    by (simp add: validate_present)
next
  fix sch e
  assume "schemas V S = Some sch \<and> jsonschema_validate L M sch = Some e \<and> is_Exception e"
  then show "validate L V M S = (V, Inr False)"
    by (simp add: validate_present)
next
  show "snd (validate L V M S) = Inr True \<longleftrightarrow>
      (\<exists>sch. schemas V S = Some sch \<and> jsonschema_validate L M sch = None)"
    by (rule validate_True_iff)
next
  fix oid E fname e
  assume h: "SchemaValidator_init oid E default_schema_dir = Inr V \<and>
      (S, fname) \<in> set schema_files \<and>
      read_json E (schema_path E fname) = Inl e \<and>
      (e = FileNotFoundError \<or> e = JSONDecodeError)"
  then have "schemas V S = None"
    using init_schemas [of oid E default_schema_dir V S fname] by (simp add: schema_path_def)
  then show "schemas V S = None" "validate L V M S = (V, Inr False)"
    by (simp_all add: validate_absent)
next
  fix oid E
  assume "\<forall>fname\<in>snd ` set schema_files.
         case read_json E (schema_path E fname) of
           Inr s \<Rightarrow> True
         | Inl e \<Rightarrow> e = FileNotFoundError \<or> e = JSONDecodeError"
  then show "\<exists>V0. SchemaValidator_init oid E default_schema_dir = Inr V0"
    by (rule init_returns)
next
  fix oid E e
  assume r: "SchemaValidator_init oid E default_schema_dir = Inl e"
  from init_raises [OF r] show "e \<noteq> FileNotFoundError" "e \<noteq> JSONDecodeError"
    "\<exists>fname\<in>snd ` set schema_files. read_json E (schema_path E fname) = Inl e"
    by simp_all
qed

theorem validate_fail_closed_witness:
  "SchemaValidator_init 0 test_files default_schema_dir = Inr test_validator \<and>
   read_json test_files (schema_path test_files ''alert.schema.json'') = Inl FileNotFoundError \<and>
   validate test_libs test_validator scenario_envelope ''alert'' = (test_validator, Inr False) \<and>
   validate test_libs test_validator (JObj [(''action'', JStr ''LOCK'')]) ''command'' =
     (test_validator, Inr False) \<and>
   jsonschema_validate test_libs scenario_envelope JNull = Some Exception \<and>
   validate test_libs (test_validator\<lparr>schemas := [''telemetry'' \<mapsto> JNull]\<rparr>)
       scenario_envelope ''telemetry'' =
     (test_validator\<lparr>schemas := [''telemetry'' \<mapsto> JNull]\<rparr>, Inr False) \<and>
   snd (validate test_libs test_validator scenario_envelope ''telemetry'') = Inr True \<and>
   (\<exists>V0. SchemaValidator_init 7 test_files default_schema_dir = Inr V0) \<and>
   SchemaValidator_init 0 unreadable_files default_schema_dir = Inl Exception \<and>
   (\<exists>fname\<in>snd ` set schema_files.
      read_json unreadable_files (schema_path unreadable_files fname) = Inl Exception)"
proof -
  let ?V = "test_validator\<lparr>schemas := [''telemetry'' \<mapsto> JNull]\<rparr>"
  have m: "(''alert'', ''alert.schema.json'') \<in> set schema_files"
    by (simp add: schema_files_def)
  have 1: "validate test_libs test_validator scenario_envelope ''alert'' =
      (test_validator, Inr False)"
    using validate_fail_closed [where V = test_validator and S = "''alert''"
        and L = test_libs and M = scenario_envelope, THEN conjunct2, THEN conjunct2,
        THEN conjunct2, THEN conjunct2, THEN conjunct1, rule_format,
        of 0 test_files "''alert.schema.json''" FileNotFoundError]
      test_init alert_missing m
    by simp
  have 2: "validate test_libs test_validator (JObj [(''action'', JStr ''LOCK'')]) ''command'' =
      (test_validator, Inr False)"
    using validate_fail_closed [where V = test_validator and S = "''command''"
        and L = test_libs and M = "JObj [(''action'', JStr ''LOCK'')]",
        THEN conjunct2, THEN conjunct1]
      test_schemas(2) lock_invalid test_libs_validate
    by simp
  have 3: "snd (validate test_libs test_validator scenario_envelope ''telemetry'') = Inr True"
    using validate_fail_closed [where V = test_validator and S = "''telemetry''"
        and L = test_libs and M = scenario_envelope,
        THEN conjunct2, THEN conjunct2, THEN conjunct2, THEN conjunct1]
      test_schemas(1) envelope_valid test_libs_validate
    by simp
  have bad: "jsonschema_validate test_libs scenario_envelope JNull = Some Exception"
    by (simp add: test_libs_validate scenario_envelope_def)
  have sv: "schemas ?V ''telemetry'' = Some JNull" by simp
  have 4: "validate test_libs ?V scenario_envelope ''telemetry'' = (?V, Inr False)"
    using validate_fail_closed [where V = ?V and S = "''telemetry''"
        and L = test_libs and M = scenario_envelope,
        THEN conjunct2, THEN conjunct2, THEN conjunct1, rule_format, of JNull Exception]
      sv bad
    by simp
  have 5: "\<exists>V0. SchemaValidator_init 7 test_files default_schema_dir = Inr V0"
    using validate_fail_closed [where V = test_validator and S = "''alert''"
        and L = test_libs and M = scenario_envelope, THEN conjunct2, THEN conjunct2,
        THEN conjunct2, THEN conjunct2, THEN conjunct2, THEN conjunct1, rule_format,
        of test_files 7]
      test_files_readable
    by blast
  have 6: "\<exists>fname\<in>snd ` set schema_files.
      read_json unreadable_files (schema_path unreadable_files fname) = Inl Exception"
    using validate_fail_closed [where V = test_validator and S = "''alert''"
        and L = test_libs and M = scenario_envelope, THEN conjunct2, THEN conjunct2,
        THEN conjunct2, THEN conjunct2, THEN conjunct2, THEN conjunct2, rule_format,
        of 0 unreadable_files Exception]
      unreadable_init
    by blast
  from test_init alert_missing 1 2 3 4 5 6 bad unreadable_init show ?thesis by blast
qed




section \<open>Publishing telemetry\<close>

lemma validate_pair: "validate L V M S = (V, snd (validate L V M S))"
  using validate_fst [of L V M S] by (metis prod.collapse)

lemma validate_telemetry_pair:
  "validate_telemetry L V M = (V, snd (validate_telemetry L V M))"
  unfolding validate_telemetry_def by (rule validate_pair)

lemma validate_command_pair:
  "validate_command L V M = (V, snd (validate_command L V M))"
  unfolding validate_command_def by (rule validate_pair)

lemma validate_alert_pair:
  "validate_alert L V M = (V, snd (validate_alert L V M))"
  unfolding validate_alert_def by (rule validate_pair)

lemma validator_same [simp]: "d\<lparr>validator := validator d\<rparr> = (d::BaseDevice)"
  by simp

lemma publish_telemetry_unfold:
  "publish_telemetry L d p P =
     (case snd (validate_telemetry L (validator d) (build_message d (stamp_time P) p)) of
        Inl e \<Rightarrow> publish_telemetry_except d e
      | Inr False \<Rightarrow> (d, None)
      | Inr True \<Rightarrow>
          (case json_dumps L (build_message d (stamp_time P) p) of
             Inl e \<Rightarrow> publish_telemetry_except d e
           | Inr s \<Rightarrow>
               (case publish_result P of
                  Some e \<Rightarrow> publish_telemetry_except (call d (Publish (telemetry_topic d) s 1)) e
                | None \<Rightarrow>
                    ((call d (Publish (telemetry_topic d) s 1))
                       \<lparr>last_published := (last_published d)(telemetry_topic d \<mapsto> published_at P),
                        last_heartbeat := heartbeat_time P,
                        uptime_seconds := uptime_seconds d + publish_interval (config d)\<rparr>,
                     None))))"
  unfolding publish_telemetry_def Let_def
  apply (subst validate_telemetry_pair)
  apply (simp add: call_def split: sum.splits bool.splits option.splits)
  done

lemma scenario_message:
  "build_message scenario_device 1701648000 scenario_payload = scenario_envelope"
  by (simp add: build_message_def scenario_device_def scenario_config_def scenario_payload_def
      scenario_envelope_def message_type_def py_int_def)

lemma scenario_topic: "telemetry_topic scenario_device = ''devices/device-1/telemetry''"
  by (simp add: telemetry_topic_def scenario_device_def scenario_config_def)

lemma scenario_validator: "validator scenario_device = test_validator"
  by (simp add: scenario_device_def)

lemma scenario_valid:
  "snd (validate_telemetry test_libs (validator scenario_device) scenario_envelope) = Inr True"
  by (simp add: validate_telemetry_def validate_True_iff scenario_validator test_schemas
      test_libs_validate envelope_valid)

lemma scenario_dumps: "json_dumps test_libs scenario_envelope = Inr scenario_text"
  by (simp add: test_libs_def)

lemma null_invalid:
  "snd (validate_telemetry test_libs (validator scenario_device)
          (build_message scenario_device 1701648000 JNull)) = Inr False"
  by (simp add: validate_telemetry_def validate_present scenario_validator test_schemas
      test_libs_validate spec_telemetry_schema_def required_ok_def properties_ok_def
      build_message_def)

lemma py_int_whole: "0 \<le> t \<Longrightarrow> of_int (py_int t) \<le> t \<and> t < of_int (py_int t) + 1"
  by (simp add: py_int_def) linarith

lemma message_type_iff:
  "message_type d =
     (if \<exists>a b. device_type (config d) = a @ ''sensor'' @ b then ''sensor'' else ''actuator'')"
  unfolding message_type_def str_in_iff by simp

lemma publish_telemetry_trace:
  "trace (fst (publish_telemetry L d p P)) = trace d \<or>
   (\<exists>s. snd (validate_telemetry L (validator d) (build_message d (stamp_time P) p)) = Inr True \<and>
        json_dumps L (build_message d (stamp_time P) p) = Inr s \<and>
        trace (fst (publish_telemetry L d p P)) =
          trace d @ [Publish (telemetry_topic d) s 1])"
  by (simp add: publish_telemetry_unfold publish_telemetry_except_def call_def
      split: sum.splits bool.splits option.splits)

lemma publish_telemetry_sent:
  "snd (validate_telemetry L (validator d) (build_message d (stamp_time P) p)) = Inr True \<Longrightarrow>
   json_dumps L (build_message d (stamp_time P) p) = Inr s \<Longrightarrow>
   trace (fst (publish_telemetry L d p P)) = trace d @ [Publish (telemetry_topic d) s 1]"
  by (simp add: publish_telemetry_unfold publish_telemetry_except_def call_def
      split: option.splits)

lemma publish_telemetry_flag:
  "publish_telemetry L (d\<lparr>is_connected := b\<rparr>) p P =
     ((fst (publish_telemetry L d p P))\<lparr>is_connected := b\<rparr>, snd (publish_telemetry L d p P))"
proof -
  have m: "build_message (d\<lparr>is_connected := b\<rparr>) t p = build_message d t p" for t
    by (simp add: build_message_def message_type_def)
  have tp: "telemetry_topic (d\<lparr>is_connected := b\<rparr>) = telemetry_topic d"
    by (simp add: telemetry_topic_def)
  show ?thesis
    by (simp add: publish_telemetry_unfold m tp publish_telemetry_except_def call_def
        split: sum.splits bool.splits option.splits)
qed

lemma publish_telemetry_count:
  "snd (validate_telemetry L (validator d) (build_message d (stamp_time P) p)) = Inr True \<Longrightarrow>
   error_count (fst (publish_telemetry L d p P)) =
     (case json_dumps L (build_message d (stamp_time P) p) of
        Inl e \<Rightarrow> if is_Exception e then error_count d + 1 else error_count d
      | Inr s \<Rightarrow>
          (case publish_result P of
             None \<Rightarrow> error_count d
           | Some e \<Rightarrow> if is_Exception e then error_count d + 1 else error_count d))"
  by (simp add: publish_telemetry_unfold publish_telemetry_except_def call_def
      split: sum.splits option.splits)

text \<open>
  Claim C9. When the envelope built from a payload fails validation under the telemetry
  schema, \<^verbatim>\<open>publish_telemetry\<close> returns with the device exactly as it was: nothing is
  handed to the MQTT client, and \<^verbatim>\<open>error_count\<close>, \<^verbatim>\<open>uptime_seconds\<close>,
  \<^verbatim>\<open>last_published\<close> and \<^verbatim>\<open>last_heartbeat\<close> keep their values.
\<close>

theorem publish_telemetry_invalid_unchanged:
  "snd (validate_telemetry L (validator d) (build_message d (stamp_time P) p)) = Inr False \<longrightarrow>
     publish_telemetry L d p P = (d, None) \<and>
     error_count (fst (publish_telemetry L d p P)) = error_count d \<and>
     uptime_seconds (fst (publish_telemetry L d p P)) = uptime_seconds d \<and>
     last_published (fst (publish_telemetry L d p P)) = last_published d \<and>
     last_heartbeat (fst (publish_telemetry L d p P)) = last_heartbeat d \<and>
     trace (fst (publish_telemetry L d p P)) = trace d"
  by (simp add: publish_telemetry_unfold)

theorem publish_telemetry_invalid_unchanged_witness:
  "snd (validate_telemetry test_libs (validator scenario_device)
          (build_message scenario_device (stamp_time scenario_pub) JNull)) = Inr False \<and>
   publish_telemetry test_libs scenario_device JNull scenario_pub = (scenario_device, None)"
proof -
  have st: "stamp_time scenario_pub = 1701648000" by (simp add: scenario_pub_def)
  from publish_telemetry_invalid_unchanged
         [where L = test_libs and d = scenario_device and P = scenario_pub and p = JNull]
       null_invalid st
  show ?thesis by simp
qed

text \<open>
  Claim C5. The message \<^verbatim>\<open>publish_telemetry\<close> builds is exactly the dictionary with the
  keys \<^verbatim>\<open>device_id\<close>, \<^verbatim>\<open>timestamp\<close>, \<^verbatim>\<open>type\<close>, \<^verbatim>\<open>payload\<close>: the timestamp is the
  clock reading truncated to whole seconds, whatever the payload holds, and the type is
  \<^verbatim>\<open>sensor\<close> exactly when \<^verbatim>\<open>sensor\<close> is a substring of the device type and
  \<^verbatim>\<open>actuator\<close> otherwise. The only thing the call hands to the MQTT client is the
  \<^verbatim>\<open>json.dumps\<close> text of this message, on the topic \<^verbatim>\<open>devices/<id>/telemetry\<close> with
  QoS 1, and it does so whenever the message validates and serialises. For device
  \<^verbatim>\<open>device-1\<close> of type \<^verbatim>\<open>temperature_sensor\<close> at time 1701648000 with the payload
  \<^verbatim>\<open>{temperature: 22.5, unit: celsius}\<close> the message is the one of the scenario.
\<close>

theorem telemetry_envelope:
  "build_message d t p =
     JObj [(''device_id'', JStr (device_id (config d))),
           (''timestamp'', JInt (py_int t)),
           (''type'', JStr (if \<exists>a b. device_type (config d) = a @ ''sensor'' @ b
                            then ''sensor'' else ''actuator'')),
           (''payload'', p)] \<and>
   (0 \<le> t \<longrightarrow> of_int (py_int t) \<le> t \<and> t < of_int (py_int t) + 1) \<and>
   (trace (fst (publish_telemetry L d p P)) = trace d \<or>
    (\<exists>s. json_dumps L (build_message d (stamp_time P) p) = Inr s \<and>
         trace (fst (publish_telemetry L d p P)) =
           trace d @ [Publish (''devices/'' @ device_id (config d) @ ''/telemetry'') s 1])) \<and>
   (\<forall>s. snd (validate_telemetry L (validator d) (build_message d (stamp_time P) p)) = Inr True \<and>
        json_dumps L (build_message d (stamp_time P) p) = Inr s \<longrightarrow>
        trace (fst (publish_telemetry L d p P)) =
          trace d @ [Publish (''devices/'' @ device_id (config d) @ ''/telemetry'') s 1]) \<and>
   build_message scenario_device 1701648000 scenario_payload =
     JObj [(''device_id'', JStr ''device-1''),
           (''timestamp'', JInt 1701648000),
           (''type'', JStr ''sensor''),
           (''payload'', JObj [(''temperature'', JFloat 22.5), (''unit'', JStr ''celsius'')])]"
proof (intro conjI)
  show "build_message d t p =
     JObj [(''device_id'', JStr (device_id (config d))),
           (''timestamp'', JInt (py_int t)),
           (''type'', JStr (if \<exists>a b. device_type (config d) = a @ ''sensor'' @ b
                            then ''sensor'' else ''actuator'')),
           (''payload'', p)]"
    unfolding build_message_def message_type_iff by simp
  show "0 \<le> t \<longrightarrow> of_int (py_int t) \<le> t \<and> t < of_int (py_int t) + 1"
    using py_int_whole by blast
  show "trace (fst (publish_telemetry L d p P)) = trace d \<or>
    (\<exists>s. json_dumps L (build_message d (stamp_time P) p) = Inr s \<and>
         trace (fst (publish_telemetry L d p P)) =
           trace d @ [Publish (''devices/'' @ device_id (config d) @ ''/telemetry'') s 1])"
    using publish_telemetry_trace [of L d p P] unfolding telemetry_topic_def by blast
  show "\<forall>s. snd (validate_telemetry L (validator d) (build_message d (stamp_time P) p)) = Inr True \<and>
        json_dumps L (build_message d (stamp_time P) p) = Inr s \<longrightarrow>
        trace (fst (publish_telemetry L d p P)) =
          trace d @ [Publish (''devices/'' @ device_id (config d) @ ''/telemetry'') s 1]"
    using publish_telemetry_sent [of L d P p] unfolding telemetry_topic_def by blast
  show "build_message scenario_device 1701648000 scenario_payload =
     JObj [(''device_id'', JStr ''device-1''),
           (''timestamp'', JInt 1701648000),
           (''type'', JStr ''sensor''),
           (''payload'', JObj [(''temperature'', JFloat 22.5), (''unit'', JStr ''celsius'')])]"
    using scenario_message by (simp add: scenario_envelope_def)
qed

theorem telemetry_envelope_witness:
  "snd (validate_telemetry test_libs (validator scenario_device)
          (build_message scenario_device (stamp_time scenario_pub) scenario_payload)) = Inr True \<and>
   json_dumps test_libs (build_message scenario_device (stamp_time scenario_pub) scenario_payload) =
     Inr scenario_text \<and>
   trace (fst (publish_telemetry test_libs scenario_device scenario_payload scenario_pub)) =
     trace scenario_device @ [Publish ''devices/device-1/telemetry'' scenario_text 1] \<and>
   (0::rat) \<le> 1701648000.73 \<and>
   of_int (py_int 1701648000.73) \<le> (1701648000.73::rat) \<and>
   (1701648000.73::rat) < of_int (py_int 1701648000.73) + 1"
proof -
  have st: "stamp_time scenario_pub = 1701648000" by (simp add: scenario_pub_def)
  have id: "device_id (config scenario_device) = ''device-1''"
    by (simp add: scenario_device_def scenario_config_def)
  have pos: "(0::rat) \<le> 1701648000.73" by simp
  have whole: "of_int (py_int 1701648000.73) \<le> (1701648000.73::rat) \<and>
      (1701648000.73::rat) < of_int (py_int 1701648000.73) + 1"
    using telemetry_envelope [where t = "1701648000.73", THEN conjunct2, THEN conjunct1] pos
    by blast
  from telemetry_envelope [where L = test_libs and d = scenario_device and p = scenario_payload
      and P = scenario_pub and t = 1701648000]
    scenario_valid scenario_dumps scenario_message st id
  have "trace (fst (publish_telemetry test_libs scenario_device scenario_payload scenario_pub)) =
     trace scenario_device @ [Publish ''devices/device-1/telemetry'' scenario_text 1]"
    by simp
  with scenario_valid scenario_dumps scenario_message st pos whole show ?thesis by simp
qed

text \<open>
  Claim C7, as stated: a publish while \<^verbatim>\<open>is_connected\<close> is false hands nothing to the
  transport and increments \<^verbatim>\<open>error_count\<close>. The device of the scenario is not connected;
  when the client's \<^verbatim>\<open>publish\<close> returns, the message has been handed to it and
  \<^verbatim>\<open>error_count\<close> is still 0.
\<close>

theorem publish_while_disconnected_counterexample:
  "\<not> is_connected scenario_device \<and>
   trace (fst (publish_telemetry test_libs scenario_device scenario_payload scenario_pub)) =
     trace scenario_device @ [Publish ''devices/device-1/telemetry'' scenario_text 1] \<and>
   trace (fst (publish_telemetry test_libs scenario_device scenario_payload scenario_pub)) \<noteq>
     trace scenario_device \<and>
   error_count scenario_device = 0 \<and>
   error_count (fst (publish_telemetry test_libs scenario_device scenario_payload scenario_pub)) = 0"
proof -
  have st: "stamp_time scenario_pub = 1701648000" "publish_result scenario_pub = None"
    by (simp_all add: scenario_pub_def)
  have v: "snd (validate_telemetry test_libs (validator scenario_device)
          (build_message scenario_device (stamp_time scenario_pub) scenario_payload)) = Inr True"
    using scenario_valid by (simp add: st scenario_message)
  have dm: "json_dumps test_libs
      (build_message scenario_device (stamp_time scenario_pub) scenario_payload) = Inr scenario_text"
    using scenario_dumps by (simp add: st scenario_message)
  have e0: "error_count scenario_device = 0" and nc: "\<not> is_connected scenario_device"
    by (simp_all add: scenario_device_def)
  have t: "trace (fst (publish_telemetry test_libs scenario_device scenario_payload scenario_pub)) =
     trace scenario_device @ [Publish ''devices/device-1/telemetry'' scenario_text 1]"
    using publish_telemetry_sent [OF v dm] by (simp add: scenario_topic)
  have e: "error_count (fst (publish_telemetry test_libs scenario_device scenario_payload
      scenario_pub)) = 0"
    using publish_telemetry_count [OF v]
    by (simp add: st scenario_message scenario_dumps e0)
  show ?thesis using t e e0 nc by simp
qed

text \<open>
  Claim C7, amended. \<^verbatim>\<open>publish_telemetry\<close> does not consult \<^verbatim>\<open>is_connected\<close>: with
  the flag set either way it does the same. While not connected, a message that
  validates and serialises is handed to the MQTT client; \<^verbatim>\<open>error_count\<close> stays as it
  is when the client's \<^verbatim>\<open>publish\<close> returns and is incremented by one when it raises an
  \<^verbatim>\<open>Exception\<close>, as it is when \<^verbatim>\<open>json.dumps\<close> raises one (then nothing is handed
  over).
\<close>

theorem publish_ignores_connection:
  "publish_telemetry L (d\<lparr>is_connected := b\<rparr>) p P =
     ((fst (publish_telemetry L d p P))\<lparr>is_connected := b\<rparr>, snd (publish_telemetry L d p P)) \<and>
   (\<forall>s. \<not> is_connected d \<and>
        snd (validate_telemetry L (validator d) (build_message d (stamp_time P) p)) = Inr True \<and>
        json_dumps L (build_message d (stamp_time P) p) = Inr s \<and> publish_result P = None \<longrightarrow>
        trace (fst (publish_telemetry L d p P)) = trace d @ [Publish (telemetry_topic d) s 1] \<and>
        error_count (fst (publish_telemetry L d p P)) = error_count d) \<and>
   (\<forall>s e. \<not> is_connected d \<and>
        snd (validate_telemetry L (validator d) (build_message d (stamp_time P) p)) = Inr True \<and>
        json_dumps L (build_message d (stamp_time P) p) = Inr s \<and>
        publish_result P = Some e \<and> is_Exception e \<longrightarrow>
        trace (fst (publish_telemetry L d p P)) = trace d @ [Publish (telemetry_topic d) s 1] \<and>
        error_count (fst (publish_telemetry L d p P)) = error_count d + 1) \<and>
   (\<forall>e. \<not> is_connected d \<and>
        snd (validate_telemetry L (validator d) (build_message d (stamp_time P) p)) = Inr True \<and>
        json_dumps L (build_message d (stamp_time P) p) = Inl e \<and> is_Exception e \<longrightarrow>
        trace (fst (publish_telemetry L d p P)) = trace d \<and>
        error_count (fst (publish_telemetry L d p P)) = error_count d + 1)"
proof (intro conjI allI impI)
  show "publish_telemetry L (d\<lparr>is_connected := b\<rparr>) p P =
     ((fst (publish_telemetry L d p P))\<lparr>is_connected := b\<rparr>, snd (publish_telemetry L d p P))"
    by (rule publish_telemetry_flag)
next
  fix s
  assume "\<not> is_connected d \<and>
        snd (validate_telemetry L (validator d) (build_message d (stamp_time P) p)) = Inr True \<and>
        json_dumps L (build_message d (stamp_time P) p) = Inr s \<and> publish_result P = None"
  then show "trace (fst (publish_telemetry L d p P)) = trace d @ [Publish (telemetry_topic d) s 1]"
    "error_count (fst (publish_telemetry L d p P)) = error_count d"
    by (simp_all add: publish_telemetry_sent publish_telemetry_count)
next
  fix s e
  assume "\<not> is_connected d \<and>
        snd (validate_telemetry L (validator d) (build_message d (stamp_time P) p)) = Inr True \<and>
        json_dumps L (build_message d (stamp_time P) p) = Inr s \<and>
        publish_result P = Some e \<and> is_Exception e"
  then show "trace (fst (publish_telemetry L d p P)) = trace d @ [Publish (telemetry_topic d) s 1]"
    "error_count (fst (publish_telemetry L d p P)) = error_count d + 1"
    by (simp_all add: publish_telemetry_sent publish_telemetry_count)
next
  fix e
  assume h: "\<not> is_connected d \<and>
        snd (validate_telemetry L (validator d) (build_message d (stamp_time P) p)) = Inr True \<and>
        json_dumps L (build_message d (stamp_time P) p) = Inl e \<and> is_Exception e"
  then show "error_count (fst (publish_telemetry L d p P)) = error_count d + 1"
    by (simp add: publish_telemetry_count)
  from h show "trace (fst (publish_telemetry L d p P)) = trace d"
    by (simp add: publish_telemetry_unfold publish_telemetry_except_def)
qed

theorem publish_ignores_connection_witness:
  "\<not> is_connected scenario_device \<and>
   publish_result scenario_pub = None \<and>
   trace (fst (publish_telemetry test_libs scenario_device scenario_payload scenario_pub)) =
     trace scenario_device @ [Publish ''devices/device-1/telemetry'' scenario_text 1] \<and>
   error_count (fst (publish_telemetry test_libs scenario_device scenario_payload scenario_pub)) =
     error_count scenario_device \<and>
   publish_result failing_pub = Some Exception \<and> is_Exception Exception \<and>
   trace (fst (publish_telemetry test_libs scenario_device scenario_payload failing_pub)) =
     trace scenario_device @ [Publish ''devices/device-1/telemetry'' scenario_text 1] \<and>
   error_count (fst (publish_telemetry test_libs scenario_device scenario_payload failing_pub)) =
     error_count scenario_device + 1 \<and>
   json_dumps (test_libs\<lparr>json_dumps := \<lambda>j. Inl TypeError\<rparr>)
     (build_message scenario_device (stamp_time scenario_pub) scenario_payload) = Inl TypeError \<and>
   is_Exception TypeError \<and>
   trace (fst (publish_telemetry (test_libs\<lparr>json_dumps := \<lambda>j. Inl TypeError\<rparr>)
                 scenario_device scenario_payload scenario_pub)) = trace scenario_device \<and>
   error_count (fst (publish_telemetry (test_libs\<lparr>json_dumps := \<lambda>j. Inl TypeError\<rparr>)
                 scenario_device scenario_payload scenario_pub)) = error_count scenario_device + 1"
proof -
  let ?L = "test_libs\<lparr>json_dumps := \<lambda>j. Inl TypeError\<rparr>"
  have st: "stamp_time failing_pub = 1701648000" "publish_result failing_pub = Some Exception"
    "stamp_time scenario_pub = 1701648000" "publish_result scenario_pub = None"
    by (simp_all add: failing_pub_def scenario_pub_def)
  have nc: "\<not> is_connected scenario_device" by (simp add: scenario_device_def)
  have v: "snd (validate_telemetry ?L (validator scenario_device) scenario_envelope) = Inr True"
    by (simp add: validate_telemetry_def validate_True_iff scenario_validator test_schemas
        test_libs_validate envelope_valid)
  have a: "trace (fst (publish_telemetry test_libs scenario_device scenario_payload failing_pub)) =
     trace scenario_device @ [Publish ''devices/device-1/telemetry'' scenario_text 1] \<and>
   error_count (fst (publish_telemetry test_libs scenario_device scenario_payload failing_pub)) =
     error_count scenario_device + 1"
    using publish_ignores_connection [where L = test_libs and d = scenario_device
      and p = scenario_payload and P = failing_pub]
      st nc scenario_valid scenario_dumps scenario_message scenario_topic
    by simp
  have b: "trace (fst (publish_telemetry test_libs scenario_device scenario_payload scenario_pub)) =
     trace scenario_device @ [Publish ''devices/device-1/telemetry'' scenario_text 1] \<and>
   error_count (fst (publish_telemetry test_libs scenario_device scenario_payload scenario_pub)) =
     error_count scenario_device"
    using publish_ignores_connection [where L = test_libs and d = scenario_device
      and p = scenario_payload and P = scenario_pub]
      st nc scenario_valid scenario_dumps scenario_message scenario_topic
    by simp
  have c: "trace (fst (publish_telemetry ?L scenario_device scenario_payload scenario_pub)) =
      trace scenario_device \<and>
   error_count (fst (publish_telemetry ?L scenario_device scenario_payload scenario_pub)) =
      error_count scenario_device + 1"
    using publish_ignores_connection [where L = ?L and d = scenario_device
      and p = scenario_payload and P = scenario_pub]
      st nc v scenario_message
    by simp
  from a b c st nc show ?thesis by simp
qed

section \<open>Inbound commands\<close>

lemma validate_command_case:
  "case_prod f (validate_command L V m) = f V (snd (validate_command L V m))"
proof -
  obtain r where r: "validate_command L V m = (V, r)"
    using validate_command_pair by blast
  then show ?thesis by simp
qed

lemma on_message_unfold:
  "on_message L d msg C =
     (case json_loads L (msg_payload msg) of
        Inl e \<Rightarrow> on_message_except d e
      | Inr payload \<Rightarrow>
          (case py_in ''state'' payload of
             Inl e \<Rightarrow> on_message_except d e
           | Inr False \<Rightarrow> (d, None)
           | Inr True \<Rightarrow>
               (case py_getitem payload ''state'' of
                  Inl e \<Rightarrow> on_message_except d e
                | Inr ds \<Rightarrow>
                    (case snd (validate_command L (validator d) ds) of
                       Inl e \<Rightarrow> on_message_except d e
                     | Inr False \<Rightarrow> (d, None)
                     | Inr True \<Rightarrow>
                         (case handle_result C of
                            None \<Rightarrow> ((call d (HandleCommand ds))\<lparr>state := handle_state C\<rparr>, None)
                          | Some e \<Rightarrow>
                              on_message_except
                                ((call d (HandleCommand ds))\<lparr>state := handle_state C\<rparr>) e)))))"
  unfolding on_message_def Let_def validate_command_case
  by (simp split: sum.splits bool.splits option.splits)

lemma on_message_except_fst: "fst (on_message_except d e) = d"
  by (simp add: on_message_except_def)

lemma py_getitem_in: "py_getitem payload k = Inr v \<Longrightarrow> py_in k payload = Inr True"
  by (cases payload) (auto split: option.splits dest: map_of_SomeD intro: rev_image_eqI)

lemma on_message_dropped:
  "json_loads L (msg_payload msg) = Inr payload \<Longrightarrow> py_getitem payload ''state'' = Inr ds \<Longrightarrow>
   snd (validate_command L (validator d) ds) = Inr False \<Longrightarrow>
   on_message L d msg C = (d, None)"
  by (simp add: on_message_unfold py_getitem_in)

lemma on_message_trace:
  "fst (on_message L d msg C) = d \<or>
   (\<exists>payload ds. json_loads L (msg_payload msg) = Inr payload \<and>
      py_getitem payload ''state'' = Inr ds \<and>
      snd (validate_command L (validator d) ds) = Inr True \<and>
      fst (on_message L d msg C) = (call d (HandleCommand ds))\<lparr>state := handle_state C\<rparr>)"
  by (simp add: on_message_unfold on_message_except_fst
      split: sum.splits bool.splits option.splits)


lemma on_message_handled:
  "json_loads L (msg_payload msg) = Inr payload \<Longrightarrow> py_getitem payload ''state'' = Inr ds \<Longrightarrow>
   snd (validate_command L (validator d) ds) = Inr True \<Longrightarrow>
   fst (on_message L d msg C) = (call d (HandleCommand ds))\<lparr>state := handle_state C\<rparr>"
  by (simp add: on_message_unfold py_getitem_in on_message_except_fst split: option.splits)

lemma lock_state: "py_getitem lock_delta ''state'' = Inr (JObj [(''action'', JStr ''LOCK'')])"
  by (simp add: lock_delta_def)

lemma lock_command_state: "py_getitem lock_command_delta ''state'' = Inr lock_command"
  by (simp add: lock_command_delta_def)

lemma lock_rejected:
  "snd (validate_command test_libs (validator scenario_device)
         (JObj [(''action'', JStr ''LOCK'')])) = Inr False"
  by (simp add: validate_command_def validate_present scenario_validator test_schemas
      test_libs_validate lock_invalid)

lemma lock_command_valid: "required_validate lock_command spec_command_schema = None"
  by (simp add: lock_command_def spec_command_schema_def required_ok_def properties_ok_def)

lemma lock_command_accepted:
  "snd (validate_command test_libs (validator scenario_device) lock_command) = Inr True"
  by (simp add: validate_command_def validate_True_iff scenario_validator test_schemas
      test_libs_validate lock_command_valid)

lemma test_loads:
  "json_loads test_libs lock_delta_text = Inr lock_delta"
  "json_loads test_libs lock_command_text = Inr lock_command_delta"
  by (simp_all add: test_libs_def lock_delta_text_def lock_command_text_def)

text \<open>
  Claim C6. When the \<^verbatim>\<open>state\<close> of an inbound shadow delta fails validation under the
  command schema, \<^verbatim>\<open>_on_message\<close> leaves the device exactly as it was and the
  subclass's \<^verbatim>\<open>handle_command\<close> is not called. Whatever the message, either the device
  is unchanged or \<^verbatim>\<open>handle_command\<close> was called once, with the \<^verbatim>\<open>state\<close> object of
  the parsed message, and \<^verbatim>\<open>validate_command\<close> returned true for that object. The
  delta \<^verbatim>\<open>{state: {action: LOCK}}\<close> without \<^verbatim>\<open>request_id\<close> is dropped.
\<close>

theorem command_gate:
  "(\<forall>payload ds.
      json_loads L (msg_payload msg) = Inr payload \<and> py_getitem payload ''state'' = Inr ds \<and>
      snd (validate_command L (validator d) ds) = Inr False \<longrightarrow>
      on_message L d msg C = (d, None)) \<and>
   (fst (on_message L d msg C) = d \<or>
    (\<exists>payload ds.
       json_loads L (msg_payload msg) = Inr payload \<and> py_getitem payload ''state'' = Inr ds \<and>
       snd (validate_command L (validator d) ds) = Inr True \<and>
       fst (on_message L d msg C) = (call d (HandleCommand ds))\<lparr>state := handle_state C\<rparr>)) \<and>
   (trace (fst (on_message L d msg C)) = trace d \<or>
    (\<exists>payload ds.
       json_loads L (msg_payload msg) = Inr payload \<and> py_getitem payload ''state'' = Inr ds \<and>
       snd (validate_command L (validator d) ds) = Inr True \<and>
       trace (fst (on_message L d msg C)) = trace d @ [HandleCommand ds])) \<and>
   (\<forall>payload ds.
      json_loads L (msg_payload msg) = Inr payload \<and> py_getitem payload ''state'' = Inr ds \<and>
      snd (validate_command L (validator d) ds) = Inr True \<longrightarrow>
      trace (fst (on_message L d msg C)) = trace d @ [HandleCommand ds])"
proof (intro conjI allI impI)
  fix payload ds
  assume "json_loads L (msg_payload msg) = Inr payload \<and> py_getitem payload ''state'' = Inr ds \<and>
      snd (validate_command L (validator d) ds) = Inr False"
  then show "on_message L d msg C = (d, None)"
    using on_message_dropped by blast
next
  show "fst (on_message L d msg C) = d \<or>
    (\<exists>payload ds.
       json_loads L (msg_payload msg) = Inr payload \<and> py_getitem payload ''state'' = Inr ds \<and>
       snd (validate_command L (validator d) ds) = Inr True \<and>
       fst (on_message L d msg C) = (call d (HandleCommand ds))\<lparr>state := handle_state C\<rparr>)"
    by (rule on_message_trace)
next
  from on_message_trace [of L d msg C]
  show "trace (fst (on_message L d msg C)) = trace d \<or>
    (\<exists>payload ds.
       json_loads L (msg_payload msg) = Inr payload \<and> py_getitem payload ''state'' = Inr ds \<and>
       snd (validate_command L (validator d) ds) = Inr True \<and>
       trace (fst (on_message L d msg C)) = trace d @ [HandleCommand ds])"
  proof
    assume "fst (on_message L d msg C) = d"
    then show ?thesis by simp
  next
    assume "\<exists>payload ds. json_loads L (msg_payload msg) = Inr payload \<and>
      py_getitem payload ''state'' = Inr ds \<and>
      snd (validate_command L (validator d) ds) = Inr True \<and>
      fst (on_message L d msg C) = (call d (HandleCommand ds))\<lparr>state := handle_state C\<rparr>"
    then obtain payload ds where
      h: "json_loads L (msg_payload msg) = Inr payload" "py_getitem payload ''state'' = Inr ds"
         "snd (validate_command L (validator d) ds) = Inr True"
         "fst (on_message L d msg C) = (call d (HandleCommand ds))\<lparr>state := handle_state C\<rparr>"
      by blast
    from h(4) have "trace (fst (on_message L d msg C)) = trace d @ [HandleCommand ds]"
      by (simp add: call_def)
    with h(1-3) show ?thesis by blast
  qed
next
  fix payload ds
  assume "json_loads L (msg_payload msg) = Inr payload \<and> py_getitem payload ''state'' = Inr ds \<and>
      snd (validate_command L (validator d) ds) = Inr True"
  then show "trace (fst (on_message L d msg C)) = trace d @ [HandleCommand ds]"
    by (simp add: on_message_handled call_def)
qed

theorem command_gate_witness:
  "json_loads test_libs lock_delta_text = Inr lock_delta \<and>
   py_getitem lock_delta ''state'' = Inr (JObj [(''action'', JStr ''LOCK'')]) \<and>
   snd (validate_command test_libs (validator scenario_device)
         (JObj [(''action'', JStr ''LOCK'')])) = Inr False \<and>
   on_message test_libs scenario_device
     \<lparr>msg_topic = ''$aws/things/device-1/shadow/update/delta'', msg_payload = lock_delta_text\<rparr>
     \<lparr>handle_result = None, handle_state = JObj [(''locked'', JBool True)]\<rparr> =
     (scenario_device, None) \<and>
   snd (validate_command test_libs (validator scenario_device) lock_command) = Inr True \<and>
   trace (fst (on_message test_libs scenario_device
     \<lparr>msg_topic = ''$aws/things/device-1/shadow/update/delta'', msg_payload = lock_command_text\<rparr>
     \<lparr>handle_result = None, handle_state = JObj [(''locked'', JBool True)]\<rparr>)) =
     trace scenario_device @ [HandleCommand lock_command]"
proof -
  let ?C = "\<lparr>handle_result = None, handle_state = JObj [(''locked'', JBool True)]\<rparr>"
  let ?m1 = "\<lparr>msg_topic = ''$aws/things/device-1/shadow/update/delta'',
              msg_payload = lock_delta_text\<rparr>"
  let ?m2 = "\<lparr>msg_topic = ''$aws/things/device-1/shadow/update/delta'',
              msg_payload = lock_command_text\<rparr>"
  have 1: "on_message test_libs scenario_device ?m1 ?C = (scenario_device, None)"
    using command_gate [where L = test_libs and d = scenario_device and msg = ?m1 and C = ?C]
      test_loads(1) lock_state lock_rejected
    by simp
  have 2: "trace (fst (on_message test_libs scenario_device ?m2 ?C)) =
      trace scenario_device @ [HandleCommand lock_command]"
    using command_gate [where L = test_libs and d = scenario_device and msg = ?m2 and C = ?C]
      test_loads(2) lock_command_state lock_command_accepted
    by simp
  from 1 2 test_loads(1) lock_state lock_rejected lock_command_accepted show ?thesis by simp
qed

section \<open>The shared validator\<close>

lemma get_validator_again:
  "get_validator G E = (G1, Inr V) \<Longrightarrow> get_validator G1 E' = (G1, Inr V)"
  by (auto simp: get_validator_def Let_def split: option.splits sum.splits)

lemma get_validator_first:
  "g_validator G = None \<Longrightarrow> get_validator G E = (G1, Inr V) \<Longrightarrow>
   g_validator G1 = Some V \<and> next_obj_id G1 = Suc (next_obj_id G) \<and>
   load_calls G1 = Suc (load_calls G) \<and>
   SchemaValidator_init (next_obj_id G) E default_schema_dir = Inr V"
  by (auto simp: get_validator_def Let_def split: sum.splits)

lemma BaseDevice_init_validator:
  "BaseDevice_init G E cfg I = (G1, Inr d) \<Longrightarrow> get_validator G E = (G1, Inr (validator d))"
  by (auto simp: BaseDevice_init_def setup_mqtt_client_def call_def Let_def
      split: prod.splits sum.splits option.splits)

lemma scenario_construction:
  "BaseDevice_init module_start test_files scenario_config scenario_init =
     (\<lparr>g_validator = Some test_validator, next_obj_id = 1, load_calls = 1\<rparr>, Inr scenario_device)"
  by (simp add: BaseDevice_init_def get_validator_def module_start_def test_init
      scenario_config_def scenario_init_def scenario_device_def
      setup_mqtt_client_def call_def Let_def)

lemma scenario_first_call:
  "get_validator module_start test_files =
     (\<lparr>g_validator = Some test_validator, next_obj_id = 1, load_calls = 1\<rparr>, Inr test_validator)"
  by (simp add: get_validator_def module_start_def test_init Let_def)

lemma second_construction:
  "BaseDevice_init \<lparr>g_validator = Some test_validator, next_obj_id = 1, load_calls = 1\<rparr>
     test_files (scenario_config\<lparr>device_id := ''device-2''\<rparr>) scenario_init =
     (\<lparr>g_validator = Some test_validator, next_obj_id = 1, load_calls = 1\<rparr>,
      Inr (scenario_device\<lparr>config := scenario_config\<lparr>device_id := ''device-2''\<rparr>\<rparr>))"
  by (simp add: BaseDevice_init_def get_validator_def
      scenario_config_def scenario_init_def scenario_device_def
      setup_mqtt_client_def call_def Let_def)

text \<open>
  Claim C10. Once \<^verbatim>\<open>get_validator\<close> has returned a validator, every later call
  returns that same object (same identity, same schemas) and changes nothing in the
  module: nothing is constructed and no schema file is read, whatever the files hold
  by then. The call that finds the global unset constructs the validator, entering
  \<^verbatim>\<open>_load_schemas\<close> once. Every device constructed afterwards holds that validator,
  so any two devices hold the same one.
\<close>

theorem get_validator_singleton:
  "(get_validator G E = (G1, Inr V) \<longrightarrow> get_validator G1 E' = (G1, Inr V)) \<and>
   (g_validator G = None \<and> get_validator G E = (G1, Inr V) \<longrightarrow>
      SchemaValidator_init (next_obj_id G) E default_schema_dir = Inr V \<and>
      obj_id V = next_obj_id G \<and> g_validator G1 = Some V \<and>
      load_calls G1 = Suc (load_calls G)) \<and>
   (get_validator G E = (G1, Inr V) \<and> BaseDevice_init G1 Ea ca Ia = (Ga, Inr da) \<and>
    BaseDevice_init Ga Eb cb Ib = (Gb, Inr db) \<longrightarrow>
      validator da = V \<and> validator db = V \<and> Ga = G1 \<and> Gb = G1) \<and>
   (BaseDevice_init G Ea ca Ia = (Ga, Inr da) \<and> BaseDevice_init Ga Eb cb Ib = (Gb, Inr db) \<longrightarrow>
      validator db = validator da \<and> Gb = Ga)"
proof (intro conjI impI)
  show "get_validator G1 E' = (G1, Inr V)" if "get_validator G E = (G1, Inr V)"
    using that by (rule get_validator_again)
next
  assume h: "g_validator G = None \<and> get_validator G E = (G1, Inr V)"
  then have f: "g_validator G1 = Some V \<and> next_obj_id G1 = Suc (next_obj_id G) \<and>
      load_calls G1 = Suc (load_calls G) \<and>
      SchemaValidator_init (next_obj_id G) E default_schema_dir = Inr V"
    using get_validator_first by blast
  then show "SchemaValidator_init (next_obj_id G) E default_schema_dir = Inr V"
    "g_validator G1 = Some V" "load_calls G1 = Suc (load_calls G)"
    by simp_all
  from f show "obj_id V = next_obj_id G" using init_obj_id by blast
next
  assume h: "get_validator G E = (G1, Inr V) \<and> BaseDevice_init G1 Ea ca Ia = (Ga, Inr da) \<and>
    BaseDevice_init Ga Eb cb Ib = (Gb, Inr db)"
  then have a: "get_validator G1 Ea = (G1, Inr V)" using get_validator_again by blast
  from h have "get_validator G1 Ea = (Ga, Inr (validator da))"
    using BaseDevice_init_validator by blast
  with a show 1: "validator da = V" and 2: "Ga = G1" by simp_all
  from h have "get_validator Ga Eb = (Gb, Inr (validator db))"
    using BaseDevice_init_validator by blast
  moreover have "get_validator Ga Eb = (G1, Inr V)"
    using h 2 get_validator_again by blast
  ultimately show "validator db = V" "Gb = G1" by simp_all
next
  assume h: "BaseDevice_init G Ea ca Ia = (Ga, Inr da) \<and>
    BaseDevice_init Ga Eb cb Ib = (Gb, Inr db)"
  then have a: "get_validator G Ea = (Ga, Inr (validator da))"
    using BaseDevice_init_validator by blast
  from h have "get_validator Ga Eb = (Gb, Inr (validator db))"
    using BaseDevice_init_validator by blast
  moreover have "get_validator Ga Eb = (Ga, Inr (validator da))"
    using a by (rule get_validator_again)
  ultimately show "validator db = validator da" "Gb = Ga" by simp_all
qed

theorem get_validator_singleton_witness:
  "g_validator module_start = None \<and>
   get_validator module_start test_files =
     (\<lparr>g_validator = Some test_validator, next_obj_id = 1, load_calls = 1\<rparr>, Inr test_validator) \<and>
   SchemaValidator_init (next_obj_id module_start) test_files default_schema_dir =
     Inr test_validator \<and>
   obj_id test_validator = next_obj_id module_start \<and>
   load_calls \<lparr>g_validator = Some test_validator, next_obj_id = 1, load_calls = 1\<rparr> =
     Suc (load_calls module_start) \<and>
   get_validator \<lparr>g_validator = Some test_validator, next_obj_id = 1, load_calls = 1\<rparr>
     \<lparr>module_dir = ''/elsewhere'', read_json = (\<lambda>p. Inl Exception)\<rparr> =
     (\<lparr>g_validator = Some test_validator, next_obj_id = 1, load_calls = 1\<rparr>, Inr test_validator) \<and>
   BaseDevice_init module_start test_files scenario_config scenario_init =
     (\<lparr>g_validator = Some test_validator, next_obj_id = 1, load_calls = 1\<rparr>, Inr scenario_device) \<and>
   BaseDevice_init \<lparr>g_validator = Some test_validator, next_obj_id = 1, load_calls = 1\<rparr>
     test_files (scenario_config\<lparr>device_id := ''device-2''\<rparr>) scenario_init =
     (\<lparr>g_validator = Some test_validator, next_obj_id = 1, load_calls = 1\<rparr>,
      Inr (scenario_device\<lparr>config := scenario_config\<lparr>device_id := ''device-2''\<rparr>\<rparr>)) \<and>
   validator (scenario_device\<lparr>config := scenario_config\<lparr>device_id := ''device-2''\<rparr>\<rparr>) =
     validator scenario_device \<and>
   validator (scenario_device\<lparr>config := scenario_config\<lparr>device_id := ''device-2''\<rparr>\<rparr>) =
     test_validator"
proof -
  let ?G1 = "\<lparr>g_validator = Some test_validator, next_obj_id = 1, load_calls = 1\<rparr>"
  let ?E' = "\<lparr>module_dir = ''/elsewhere'', read_json = (\<lambda>p. Inl Exception)\<rparr>"
  let ?c2 = "scenario_config\<lparr>device_id := ''device-2''\<rparr>"
  let ?d2 = "scenario_device\<lparr>config := ?c2\<rparr>"
  have g0: "g_validator module_start = None" by (simp add: module_start_def)
  note inst = get_validator_singleton [where G = module_start and E = test_files
      and ?G1.0 = ?G1 and V = test_validator]
  have again: "get_validator ?G1 ?E' = (?G1, Inr test_validator)"
    using inst [where E' = ?E', THEN conjunct1] scenario_first_call by blast
  have first: "SchemaValidator_init (next_obj_id module_start) test_files default_schema_dir =
      Inr test_validator \<and>
    obj_id test_validator = next_obj_id module_start \<and> g_validator ?G1 = Some test_validator \<and>
    load_calls ?G1 = Suc (load_calls module_start)"
    using inst [THEN conjunct2, THEN conjunct1] g0 scenario_first_call by blast
  have third: "validator ?d2 = test_validator"
    using inst [where Ea = test_files and ca = ?c2 and Ia = scenario_init and Ga = ?G1
        and da = ?d2 and Eb = test_files and cb = ?c2 and Ib = scenario_init and Gb = ?G1
        and db = ?d2, THEN conjunct2, THEN conjunct2, THEN conjunct1]
      scenario_first_call second_construction
    by blast
  have same: "validator ?d2 = validator scenario_device"
    using get_validator_singleton [where G = module_start and Ea = test_files
        and ca = scenario_config and Ia = scenario_init and Ga = ?G1 and da = scenario_device
        and Eb = test_files and cb = ?c2 and Ib = scenario_init and Gb = ?G1
        and db = ?d2, THEN conjunct2, THEN conjunct2, THEN conjunct2]
      scenario_construction second_construction
    by blast
  from g0 scenario_first_call again first scenario_construction second_construction same third
  show ?thesis by blast
qed

section \<open>Sessions: connection flag, status and error count\<close>

lemma validate_alert_case:
  "case_prod f (validate_alert L V m) = f V (snd (validate_alert L V m))"
proof -
  obtain r where r: "validate_alert L V m = (V, r)"
    using validate_alert_pair by blast
  then show ?thesis by simp
qed

text \<open>What each operation does to the connection flag, the status and the error count.\<close>

lemma on_message_fields:
  "is_connected (fst (on_message L d msg C)) = is_connected d"
  "status (fst (on_message L d msg C)) = status d"
  "error_count (fst (on_message L d msg C)) = error_count d"
  using on_message_trace [of L d msg C] by (auto simp: call_def)

lemma publish_telemetry_fields:
  "is_connected (fst (publish_telemetry L d p P)) = is_connected d"
  "status (fst (publish_telemetry L d p P)) = status d"
  by (simp_all add: publish_telemetry_unfold publish_telemetry_except_def call_def
      split: sum.splits bool.splits option.splits)


lemma publish_alert_fields:
  "is_connected (fst (publish_alert L d a v x A)) = is_connected d"
  "status (fst (publish_alert L d a v x A)) = status d"
  "error_count (fst (publish_alert L d a v x A)) = error_count d"
  unfolding publish_alert_def Let_def validate_alert_case
  by (simp_all add: publish_alert_except_def call_def
      split: sum.splits bool.splits option.splits)

lemma update_shadow_fields:
  "is_connected (fst (update_shadow L d r x)) = is_connected d"
  "status (fst (update_shadow L d r x)) = status d"
  "error_count (fst (update_shadow L d r x)) = error_count d"
  "state (fst (update_shadow L d r x)) = state d"
  by (simp_all add: update_shadow_def update_shadow_except_def call_def Let_def
      split: sum.splits option.splits)

lemma disconnect_fields:
  "is_connected (fst (disconnect d C)) = is_connected d"
  "status (fst (disconnect d C)) = status d"
  "error_count (fst (disconnect d C)) = error_count d"
  by (simp_all add: disconnect_def disconnect_except_def call_def Let_def
      split: option.splits)

lemma sleep_fields:
  "is_connected (fst (sleep d i r)) = is_connected d"
  "status (fst (sleep d i r)) = status d"
  "error_count (fst (sleep d i r)) = error_count d"
  "snd (sleep d i r) = r"
  by (simp_all add: sleep_def call_def)

lemma loop_except_fields:
  "is_connected (fst (loop_except d i I e)) = is_connected d"
  "status (fst (loop_except d i I e)) = status d"
  "error_count d \<le> error_count (fst (loop_except d i I e))"
  by (simp_all add: loop_except_def sleep_def call_def)

lemma iteration_unfold:
  "iteration L i d I =
     (case gen_result I of
        Inl e \<Rightarrow> loop_except (d\<lparr>state := gen_state I\<rparr>) i I e
      | Inr p \<Rightarrow>
          (let r1 = publish_telemetry L (d\<lparr>state := gen_state I\<rparr>) p (telemetry_env I)
           in case snd r1 of
                Some e \<Rightarrow> loop_except (fst r1) i I e
              | None \<Rightarrow>
                  (let r2 = update_shadow L (fst r1) (state (fst r1)) (shadow_result I)
                   in case snd r2 of
                        Some e \<Rightarrow> loop_except (fst r2) i I e
                      | None \<Rightarrow>
                          (case sleep_result I of
                             Some e \<Rightarrow> loop_except (call (fst r2) (Sleep i)) i I e
                           | None \<Rightarrow> (call (fst r2) (Sleep i), None)))))"
  by (simp add: iteration_def Let_def sleep_def split: sum.splits prod.splits option.splits)

lemma iteration_fields:
  "is_connected (fst (iteration L i d I)) = is_connected d"
  "status (fst (iteration L i d I)) = status d"
  by (simp_all add: iteration_unfold Let_def loop_except_fields publish_telemetry_fields
      update_shadow_fields call_def split: sum.splits option.splits)










lemma online_fields:
  "is_connected scenario_online" "status scenario_online = ACTIVE"
  "error_count scenario_online = 0" "validator scenario_online = test_validator"
  "config scenario_online = scenario_config"
  by (simp_all add: scenario_online_def on_connect_def call_def scenario_device_def)

lemma online_message:
  "build_message scenario_online 1701648000 scenario_payload = scenario_envelope"
  by (simp add: build_message_def message_type_def online_fields scenario_config_def
      scenario_payload_def scenario_envelope_def py_int_def)

lemma online_valid:
  "snd (validate_telemetry test_libs (validator scenario_online) scenario_envelope) = Inr True"
  using scenario_valid by (simp add: online_fields scenario_validator)









text \<open>The status along a session.\<close>

lemma deliver_consistent: "status_consistent d \<Longrightarrow> status_consistent (deliver L d cb)"
  by (cases cb)
    (simp_all add: status_consistent_def on_connect_def on_disconnect_def call_def
      on_message_fields)

lemma deliver_keep:
  "\<not> status_callback cb \<Longrightarrow>
   status (deliver L d cb) = status d \<and> is_connected (deliver L d cb) = is_connected d"
  by (cases cb) (simp_all add: on_message_fields)

lemma deliver_sets: "status_callback cb \<Longrightarrow> status (deliver L d cb) \<noteq> INACTIVE"
  by (cases cb) (simp_all add: on_connect_def on_disconnect_def call_def)

lemma deliver_stays: "status d \<noteq> INACTIVE \<Longrightarrow> status (deliver L d cb) \<noteq> INACTIVE"
  by (cases cb) (simp_all add: on_connect_def on_disconnect_def call_def on_message_fields)

lemma deliver_all_consistent:
  "status_consistent d \<Longrightarrow> status_consistent (foldl (deliver L) d cbs)"
  by (induction cbs arbitrary: d) (simp_all add: deliver_consistent)

lemma deliver_all_keep:
  "\<not> list_ex status_callback cbs \<Longrightarrow>
   status (foldl (deliver L) d cbs) = status d \<and>
   is_connected (foldl (deliver L) d cbs) = is_connected d"
  by (induction cbs arbitrary: d) (simp_all add: deliver_keep)

lemma deliver_all_stays:
  "status d \<noteq> INACTIVE \<Longrightarrow> status (foldl (deliver L) d cbs) \<noteq> INACTIVE"
  by (induction cbs arbitrary: d) (simp_all add: deliver_stays)

lemma deliver_all_sets:
  "list_ex status_callback cbs \<Longrightarrow> status (foldl (deliver L) d cbs) \<noteq> INACTIVE"
proof (induction cbs arbitrary: d)
  case Nil
  then show ?case by simp
next
  case (Cons cb cbs)
  show ?case
  proof (cases "status_callback cb")
    case True
    then have "status (deliver L d cb) \<noteq> INACTIVE" by (rule deliver_sets)
    then show ?thesis by (simp add: deliver_all_stays)
  next
    case False
    with Cons.prems have "list_ex status_callback cbs" by simp
    then show ?thesis using Cons.IH by simp
  qed
qed

lemma connect_except_status:
  "status (fst (connect_except d e)) = (if is_Exception e then ERROR else status d)"
  by (simp add: connect_except_def)

lemma connect_except_consistent:
  "status_consistent d \<Longrightarrow> status_consistent (fst (connect_except d e))"
  by (simp add: connect_except_def status_consistent_def)

lemma call_fields:
  "status (call d x) = status d" "is_connected (call d x) = is_connected d"
  "status_consistent (call d x) = status_consistent d"
  by (simp_all add: call_def status_consistent_def)

lemma connect_consistent: "status_consistent d \<Longrightarrow> status_consistent (fst (connect L d C))"
  by (simp add: connect_def Let_def connect_except_consistent call_fields
      deliver_all_consistent split: option.splits)

lemma connect_keep:
  "\<not> connection_event (EvConnect C) \<Longrightarrow> status (fst (connect L d C)) = status d"
  by (auto simp: connect_def Let_def connect_except_status call_fields deliver_all_keep
      split: option.splits)

lemma connect_stays: "status d \<noteq> INACTIVE \<Longrightarrow> status (fst (connect L d C)) \<noteq> INACTIVE"
  by (simp add: connect_def Let_def connect_except_status call_fields deliver_all_stays
      split: option.splits)

lemma connect_sets:
  assumes "connection_event (EvConnect C)" and "status_consistent d"
  shows "status (fst (connect L d C)) \<noteq> INACTIVE"
proof (cases "mqtt_connect_result C")
  case (Some e)
  with assms(1) show ?thesis
    by (simp add: connect_def Let_def connect_except_status)
next
  case None
  let ?d2 = "call (call (call d (MqttConnect (mqtt_broker (config d)) (mqtt_port (config d)) 60))
                LoopStart) (Sleep 2)"
  let ?d3 = "foldl (deliver L) ?d2 (wait_callbacks C)"
  have c3: "status_consistent ?d3"
    using assms(2) by (simp add: deliver_all_consistent call_fields)
  show ?thesis
  proof (cases "list_ex status_callback (wait_callbacks C)")
    case True
    then have "status ?d3 \<noteq> INACTIVE" by (rule deliver_all_sets)
    then show ?thesis using None
      by (simp add: connect_def Let_def connect_except_status split: option.splits)
  next
    case False
    with assms(1) None have w: "case wait_result C of Some e \<Rightarrow> is_Exception e | None \<Rightarrow> True"
      by simp
    show ?thesis
    proof (cases "wait_result C")
      case (Some e)
      with w None show ?thesis
        by (simp add: connect_def Let_def connect_except_status)
    next
      case n: None
      have "is_connected ?d3 \<Longrightarrow> status ?d3 \<noteq> INACTIVE"
        using c3 by (auto simp: status_consistent_def)
      then show ?thesis using None n
        by (simp add: connect_def Let_def connect_except_status)
    qed
  qed
qed

lemma step_consistent: "status_consistent d \<Longrightarrow> status_consistent (step L d e)"
proof (cases e)
  case (EvCallback cb)
  assume "status_consistent d"
  with EvCallback show ?thesis by (simp add: deliver_consistent)
next
  case (EvConnect C)
  assume "status_consistent d"
  with EvConnect show ?thesis by (simp add: connect_consistent)
qed (simp_all add: status_consistent_def disconnect_fields publish_telemetry_fields
      publish_alert_fields update_shadow_fields iteration_fields)

lemma step_keep: "\<not> connection_event e \<Longrightarrow> status (step L d e) = status d"
proof (cases e)
  case (EvConnect C)
  assume "\<not> connection_event e"
  with EvConnect show ?thesis using connect_keep by simp
qed (simp_all add: deliver_keep disconnect_fields publish_telemetry_fields publish_alert_fields
      update_shadow_fields iteration_fields)

lemma step_stays: "status d \<noteq> INACTIVE \<Longrightarrow> status (step L d e) \<noteq> INACTIVE"
  by (cases e)
    (simp_all add: deliver_stays connect_stays disconnect_fields publish_telemetry_fields
      publish_alert_fields update_shadow_fields iteration_fields)

lemma step_sets:
  "connection_event e \<Longrightarrow> status_consistent d \<Longrightarrow> status (step L d e) \<noteq> INACTIVE"
proof (cases e)
  case (EvCallback cb)
  assume "connection_event e"
  with EvCallback show ?thesis by (simp add: deliver_sets)
next
  case (EvConnect C)
  assume "connection_event e" "status_consistent d"
  with EvConnect show ?thesis using connect_sets by simp
qed simp_all

lemma exec_consistent: "status_consistent d \<Longrightarrow> status_consistent (exec L d evs)"
  unfolding exec_def by (induction evs arbitrary: d) (simp_all add: step_consistent)

lemma exec_stays: "status d \<noteq> INACTIVE \<Longrightarrow> status (exec L d evs) \<noteq> INACTIVE"
  unfolding exec_def by (induction evs arbitrary: d) (simp_all add: step_stays)

lemma exec_inactive:
  "status_consistent d \<Longrightarrow> status d = INACTIVE \<Longrightarrow>
   (status (exec L d evs) = INACTIVE) = (\<not> list_ex connection_event evs)"
proof (induction evs arbitrary: d)
  case Nil
  then show ?case by (simp add: exec_def)
next
  case (Cons e evs)
  have ex: "exec L d (e # evs) = exec L (step L d e) evs" by (simp add: exec_def)
  show ?case
  proof (cases "connection_event e")
    case True
    then have "status (step L d e) \<noteq> INACTIVE"
      using Cons.prems(1) by (rule step_sets)
    then have "status (exec L (step L d e) evs) \<noteq> INACTIVE" by (rule exec_stays)
    then show ?thesis using True ex by simp
  next
    case False
    then have "status (step L d e) = INACTIVE"
      using Cons.prems(2) by (simp add: step_keep)
    moreover have "status_consistent (step L d e)"
      using Cons.prems(1) by (rule step_consistent)
    ultimately show ?thesis using Cons.IH False ex by simp
  qed
qed

lemma BaseDevice_init_fields:
  "BaseDevice_init G E cfg I = (G1, Inr d) \<Longrightarrow>
   status d = INACTIVE \<and> \<not> is_connected d \<and> error_count d = 0"
  by (auto simp: BaseDevice_init_def setup_mqtt_client_def call_def Let_def
      split: prod.splits sum.splits option.splits)


lemma failed_publish_online:
  "is_connected (fst (publish_telemetry test_libs scenario_online scenario_payload failing_pub))"
  "status (fst (publish_telemetry test_libs scenario_online scenario_payload failing_pub)) = ACTIVE"
  "error_count (fst (publish_telemetry test_libs scenario_online scenario_payload failing_pub)) = 1"
proof -
  have st: "stamp_time failing_pub = 1701648000" "publish_result failing_pub = Some Exception"
    by (simp_all add: failing_pub_def scenario_pub_def)
  have v: "snd (validate_telemetry test_libs (validator scenario_online)
       (build_message scenario_online (stamp_time failing_pub) scenario_payload)) = Inr True"
    using online_valid by (simp add: st online_message)
  show "is_connected (fst (publish_telemetry test_libs scenario_online scenario_payload
      failing_pub))"
    "status (fst (publish_telemetry test_libs scenario_online scenario_payload failing_pub)) =
      ACTIVE"
    by (simp_all add: publish_telemetry_fields online_fields)
  show "error_count (fst (publish_telemetry test_libs scenario_online scenario_payload
      failing_pub)) = 1"
    using publish_telemetry_count [OF v]
    by (simp add: st online_message scenario_dumps online_fields)
qed

lemma failed_publish_session:
  "exec test_libs scenario_device
     [EvCallback (OnConnect 0), EvPublishTelemetry scenario_payload failing_pub] =
   fst (publish_telemetry test_libs scenario_online scenario_payload failing_pub)"
  by (simp add: exec_def scenario_online_def)

text \<open>
  Claim C1, as stated: the status is \<^verbatim>\<open>ACTIVE\<close> if and only if the device is connected
  and no error has been recorded since the last successful connect, and it is
  \<^verbatim>\<open>ERROR\<close> whenever \<^verbatim>\<open>error_count\<close> has grown since the connect while still
  connected. In the session below the device of the scenario is constructed, receives
  a connect acknowledgement with return code 0, and then a publish raises: the device
  is connected, \<^verbatim>\<open>error_count\<close> has gone from 0 to 1, and the status is still
  \<^verbatim>\<open>ACTIVE\<close>.
\<close>

theorem status_rule_counterexample:
  "BaseDevice_init module_start test_files scenario_config scenario_init =
     (\<lparr>g_validator = Some test_validator, next_obj_id = 1, load_calls = 1\<rparr>, Inr scenario_device) \<and>
   is_connected (exec test_libs scenario_device
     [EvCallback (OnConnect 0), EvPublishTelemetry scenario_payload failing_pub]) \<and>
   error_count (exec test_libs scenario_device [EvCallback (OnConnect 0)]) = 0 \<and>
   error_count (exec test_libs scenario_device
     [EvCallback (OnConnect 0), EvPublishTelemetry scenario_payload failing_pub]) = 1 \<and>
   status (exec test_libs scenario_device
     [EvCallback (OnConnect 0), EvPublishTelemetry scenario_payload failing_pub]) = ACTIVE \<and>
   status (exec test_libs scenario_device
     [EvCallback (OnConnect 0), EvPublishTelemetry scenario_payload failing_pub]) \<noteq> ERROR"
proof -
  have "exec test_libs scenario_device [EvCallback (OnConnect 0)] = scenario_online"
    by (simp add: exec_def scenario_online_def)
  then show ?thesis
    using scenario_construction failed_publish_online online_fields(3)
    by (simp add: failed_publish_session)
qed

text \<open>
  Claim C1, amended. The status is assigned only by the connect and disconnect
  callbacks and by the handler of \<^verbatim>\<open>connect\<close>, never from \<^verbatim>\<open>error_count\<close>. In every
  state a session reaches from a constructed device: \<^verbatim>\<open>ACTIVE\<close> implies connected,
  \<^verbatim>\<open>OFFLINE\<close> implies not connected, \<^verbatim>\<open>INACTIVE\<close> implies not connected, and the
  status is \<^verbatim>\<open>INACTIVE\<close> exactly when no event so far has assigned it. A connect
  acknowledgement with return code 0 gives \<^verbatim>\<open>ACTIVE\<close> and connected, one with another
  code gives \<^verbatim>\<open>ERROR\<close> and leaves the connection flag, a disconnect gives
  \<^verbatim>\<open>OFFLINE\<close> and not connected; \<^verbatim>\<open>publish_telemetry\<close> and a pass of the main loop
  change neither the status nor the connection flag, whatever they do to
  \<^verbatim>\<open>error_count\<close>.
\<close>

theorem status_follows_connection_events:
  "(BaseDevice_init G E cfg I = (G1, Inr d0) \<longrightarrow>
      (status (exec L d0 evs) = ACTIVE \<longrightarrow> is_connected (exec L d0 evs)) \<and>
      (status (exec L d0 evs) = OFFLINE \<longrightarrow> \<not> is_connected (exec L d0 evs)) \<and>
      (status (exec L d0 evs) = INACTIVE \<longrightarrow> \<not> is_connected (exec L d0 evs)) \<and>
      ((status (exec L d0 evs) = INACTIVE) = (\<not> list_ex connection_event evs))) \<and>
   status (on_connect d 0) = ACTIVE \<and> is_connected (on_connect d 0) \<and>
   (rc \<noteq> 0 \<longrightarrow>
      status (on_connect d rc) = ERROR \<and> is_connected (on_connect d rc) = is_connected d) \<and>
   status (on_disconnect d rc) = OFFLINE \<and> \<not> is_connected (on_disconnect d rc) \<and>
   status (fst (publish_telemetry L d p P)) = status d \<and>
   is_connected (fst (publish_telemetry L d p P)) = is_connected d \<and>
   status (fst (iteration L i d It)) = status d \<and>
   is_connected (fst (iteration L i d It)) = is_connected d"
proof -
  have session: "(status (exec L d0 evs) = ACTIVE \<longrightarrow> is_connected (exec L d0 evs)) \<and>
      (status (exec L d0 evs) = OFFLINE \<longrightarrow> \<not> is_connected (exec L d0 evs)) \<and>
      (status (exec L d0 evs) = INACTIVE \<longrightarrow> \<not> is_connected (exec L d0 evs)) \<and>
      ((status (exec L d0 evs) = INACTIVE) = (\<not> list_ex connection_event evs))"
    if init: "BaseDevice_init G E cfg I = (G1, Inr d0)"
  proof -
    from BaseDevice_init_fields [OF init]
    have s0: "status d0 = INACTIVE" and c0: "\<not> is_connected d0" by simp_all
    then have k0: "status_consistent d0" by (simp add: status_consistent_def)
    from exec_consistent [OF k0, of L evs] exec_inactive [OF k0 s0, of L evs]
    show ?thesis by (simp add: status_consistent_def)
  qed
  have cb: "status (on_connect d 0) = ACTIVE \<and> is_connected (on_connect d 0) \<and>
   (rc \<noteq> 0 \<longrightarrow>
      status (on_connect d rc) = ERROR \<and> is_connected (on_connect d rc) = is_connected d) \<and>
   status (on_disconnect d rc) = OFFLINE \<and> \<not> is_connected (on_disconnect d rc)"
    by (simp add: on_connect_def on_disconnect_def call_def)
  from session cb show ?thesis
    by (simp add: publish_telemetry_fields iteration_fields)
qed

theorem status_follows_connection_events_witness:
  "BaseDevice_init module_start test_files scenario_config scenario_init =
     (\<lparr>g_validator = Some test_validator, next_obj_id = 1, load_calls = 1\<rparr>, Inr scenario_device) \<and>
   status (exec test_libs scenario_device
     [EvCallback (OnConnect 0), EvPublishTelemetry scenario_payload failing_pub]) = ACTIVE \<and>
   is_connected (exec test_libs scenario_device
     [EvCallback (OnConnect 0), EvPublishTelemetry scenario_payload failing_pub]) \<and>
   status (exec test_libs scenario_device
     [EvCallback (OnConnect 0), EvCallback (OnDisconnect 1)]) = OFFLINE \<and>
   \<not> is_connected (exec test_libs scenario_device
     [EvCallback (OnConnect 0), EvCallback (OnDisconnect 1)]) \<and>
   \<not> list_ex connection_event [EvPublishTelemetry scenario_payload failing_pub] \<and>
   status (exec test_libs scenario_device [EvPublishTelemetry scenario_payload failing_pub]) =
     INACTIVE \<and>
   \<not> is_connected (exec test_libs scenario_device
     [EvPublishTelemetry scenario_payload failing_pub]) \<and>
   status (on_connect scenario_online 5) = ERROR \<and>
   is_connected (on_connect scenario_online 5)"
proof -
  let ?a = "[EvCallback (OnConnect 0), EvPublishTelemetry scenario_payload failing_pub]"
  let ?b = "[EvCallback (OnConnect 0), EvCallback (OnDisconnect 1)]"
  let ?c = "[EvPublishTelemetry scenario_payload failing_pub]"
  note init = scenario_construction
  have sa: "status (exec test_libs scenario_device ?a) = ACTIVE"
    using failed_publish_online(2) by (simp add: failed_publish_session)
  have sb: "status (exec test_libs scenario_device ?b) = OFFLINE"
    by (simp add: exec_def on_disconnect_def)
  have nc: "\<not> list_ex connection_event ?c" by simp
  have rc: "(5::int) \<noteq> 0" by simp
  have a: "is_connected (exec test_libs scenario_device ?a)"
    using status_follows_connection_events [where G = module_start and E = test_files
        and cfg = scenario_config and I = scenario_init and ?d0.0 = scenario_device
        and L = test_libs and evs = ?a, THEN conjunct1] init sa
    by blast
  have b: "\<not> is_connected (exec test_libs scenario_device ?b)"
    using status_follows_connection_events [where G = module_start and E = test_files
        and cfg = scenario_config and I = scenario_init and ?d0.0 = scenario_device
        and L = test_libs and evs = ?b, THEN conjunct1] init sb
    by blast
  have c: "status (exec test_libs scenario_device ?c) = INACTIVE \<and>
      \<not> is_connected (exec test_libs scenario_device ?c)"
    using status_follows_connection_events [where G = module_start and E = test_files
        and cfg = scenario_config and I = scenario_init and ?d0.0 = scenario_device
        and L = test_libs and evs = ?c, THEN conjunct1] init nc
    by blast
  have d: "status (on_connect scenario_online 5) = ERROR \<and>
      is_connected (on_connect scenario_online 5)"
    using status_follows_connection_events [where d = scenario_online and rc = 5,
        THEN conjunct2, THEN conjunct2, THEN conjunct2, THEN conjunct1] rc online_fields(1)
    by simp
  from init sa a sb b nc c d show ?thesis by blast
qed

section \<open>The main loop\<close>

text \<open>Which exceptions leave the publishing methods and the loop body.\<close>

lemma publish_telemetry_raises:
  "snd (publish_telemetry L d p P) = Some e \<Longrightarrow> \<not> is_Exception e"
  by (auto simp: publish_telemetry_unfold publish_telemetry_except_def
      split: sum.splits bool.splits option.splits if_splits)

lemma publish_telemetry_failed:
  "snd (validate_telemetry L (validator d) (build_message d (stamp_time P) p)) = Inr True \<Longrightarrow>
   json_dumps L (build_message d (stamp_time P) p) = Inr s \<Longrightarrow>
   publish_result P = Some x \<Longrightarrow> is_Exception x \<Longrightarrow>
   publish_telemetry L d p P =
     ((call d (Publish (telemetry_topic d) s 1))\<lparr>error_count := error_count d + 1\<rparr>, None)"
  by (simp add: publish_telemetry_unfold publish_telemetry_except_def call_def)

lemma update_shadow_raises:
  "snd (update_shadow L d r x) = Some e \<Longrightarrow> \<not> is_Exception e"
  by (auto simp: update_shadow_def update_shadow_except_def Let_def
      split: sum.splits option.splits if_splits)

lemma update_shadow_swallows:
  "json_dumps L (JObj [(''state'', JObj [(''reported'', r)])]) = Inr s \<Longrightarrow>
   is_Exception e \<Longrightarrow>
   update_shadow L d r (Some e) = (call d (Publish (shadow_topic d) s 1), None)"
  by (simp add: update_shadow_def update_shadow_except_def Let_def)

lemma update_shadow_dumps_raises:
  "json_dumps L (JObj [(''state'', JObj [(''reported'', r)])]) = Inl e \<Longrightarrow>
   is_Exception e \<Longrightarrow> update_shadow L d r x = (d, None)"
  by (simp add: update_shadow_def update_shadow_except_def Let_def)

lemma loop_except_caught:
  "is_Exception e \<Longrightarrow>
   loop_except d i I e =
     (call (d\<lparr>error_count := error_count d + 1\<rparr>) (Sleep i), handler_sleep_result I)"
  by (simp add: loop_except_def sleep_def)

lemma loop_except_raises:
  "snd (loop_except d i I e) = Some x \<Longrightarrow>
   (\<not> is_Exception e \<and> x = e) \<or> handler_sleep_result I = Some x"
  by (auto simp: loop_except_def sleep_def split: if_splits)

lemma iteration_gen_raises:
  "gen_result I = Inl e \<Longrightarrow> is_Exception e \<Longrightarrow>
   iteration L i d I =
     (call (d\<lparr>state := gen_state I, error_count := error_count d + 1\<rparr>) (Sleep i),
      handler_sleep_result I)"
  by (simp add: iteration_unfold loop_except_caught)

lemma iteration_normal:
  "gen_result I = Inr p \<Longrightarrow>
   snd (publish_telemetry L (d\<lparr>state := gen_state I\<rparr>) p (telemetry_env I)) = None \<Longrightarrow>
   snd (update_shadow L (fst (publish_telemetry L (d\<lparr>state := gen_state I\<rparr>) p (telemetry_env I)))
          (gen_state I) (shadow_result I)) = None \<Longrightarrow>
   sleep_result I = None \<Longrightarrow>
   iteration L i d I =
     (call (fst (update_shadow L
                   (fst (publish_telemetry L (d\<lparr>state := gen_state I\<rparr>) p (telemetry_env I)))
                   (gen_state I) (shadow_result I))) (Sleep i), None)"
proof -
  have st: "state (fst (publish_telemetry L (d\<lparr>state := gen_state I\<rparr>) p (telemetry_env I))) =
      gen_state I"
    by (simp add: publish_telemetry_unfold publish_telemetry_except_def call_def
        split: sum.splits bool.splits option.splits)
  assume "gen_result I = Inr p"
    "snd (publish_telemetry L (d\<lparr>state := gen_state I\<rparr>) p (telemetry_env I)) = None"
    "snd (update_shadow L (fst (publish_telemetry L (d\<lparr>state := gen_state I\<rparr>) p (telemetry_env I)))
          (gen_state I) (shadow_result I)) = None"
    "sleep_result I = None"
  then show ?thesis by (simp add: iteration_unfold Let_def st)
qed

lemma iteration_raises:
  "snd (iteration L i d I) = Some x \<Longrightarrow> \<not> is_Exception x \<or> handler_sleep_result I = Some x"
  by (auto simp: iteration_unfold Let_def split: sum.splits option.splits
      dest!: loop_except_raises)


text \<open>The loop makes no call of \<^verbatim>\<open>loop_stop\<close>; \<^verbatim>\<open>disconnect\<close> makes exactly one.\<close>

lemma call_stops:
  "count_list (trace (call d x)) LoopStop =
     count_list (trace d) LoopStop + (if x = LoopStop then 1 else 0)"
  by (simp add: call_def)

lemma on_message_stops:
  "count_list (trace (fst (on_message L d msg C))) LoopStop = count_list (trace d) LoopStop"
  using on_message_trace [of L d msg C] by (auto simp: call_def)

lemma deliver_stops:
  "count_list (trace (deliver L d cb)) LoopStop = count_list (trace d) LoopStop"
  by (cases cb) (simp_all add: on_connect_def on_disconnect_def call_def on_message_stops)

lemma deliver_all_stops:
  "count_list (trace (foldl (deliver L) d cbs)) LoopStop = count_list (trace d) LoopStop"
  by (induction cbs arbitrary: d) (simp_all add: deliver_stops)

lemma publish_telemetry_stops:
  "count_list (trace (fst (publish_telemetry L d p P))) LoopStop = count_list (trace d) LoopStop"
  using publish_telemetry_trace [of L d p P] by auto

lemma update_shadow_stops:
  "count_list (trace (fst (update_shadow L d r x))) LoopStop = count_list (trace d) LoopStop"
  by (simp add: update_shadow_def update_shadow_except_def call_def Let_def
      split: sum.splits option.splits)

lemma loop_except_stops:
  "count_list (trace (fst (loop_except d i I e))) LoopStop = count_list (trace d) LoopStop"
  by (simp add: loop_except_def sleep_def call_def)

lemma iteration_stops:
  "count_list (trace (fst (iteration L i d I))) LoopStop = count_list (trace d) LoopStop"
  by (simp add: iteration_unfold Let_def loop_except_stops publish_telemetry_stops
      update_shadow_stops call_stops split: sum.splits option.splits)

lemma run_loop_stops:
  "run_loop L i d script = Some (d1, r) \<Longrightarrow>
   count_list (trace d1) LoopStop = count_list (trace d) LoopStop"
proof (induction script arbitrary: d)
  case Nil
  then show ?case by (simp split: if_splits)
next
  case (Cons x script)
  obtain I cbs where x: "x = (I, cbs)" by (cases x)
  show ?case
  proof (cases "is_connected d")
    case False
    with Cons.prems x show ?thesis by simp
  next
    case True
    obtain d' r' where it: "iteration L i d I = (d', r')" by (cases "iteration L i d I")
    have c: "count_list (trace d') LoopStop = count_list (trace d) LoopStop"
      using iteration_stops [of L i d I] it by simp
    show ?thesis
    proof (cases r')
      case (Some e)
      with Cons.prems x True it c show ?thesis by simp
    next
      case None
      with Cons.prems x True it
      have "run_loop L i (foldl (deliver L) d' cbs) script = Some (d1, r)" by simp
      from Cons.IH [OF this] c show ?thesis by (simp add: deliver_all_stops)
    qed
  qed
qed

lemma run_loop_exit:
  "run_loop L i d script = Some (d1, r) \<Longrightarrow>
   (r = None \<longrightarrow> \<not> is_connected d1) \<and>
   (\<forall>e. r = Some e \<longrightarrow>
      \<not> is_Exception e \<or> list_ex (\<lambda>x. handler_sleep_result (fst x) = Some e) script)"
proof (induction script arbitrary: d)
  case Nil
  then show ?case by (simp split: if_splits)
next
  case (Cons x script)
  obtain I cbs where x: "x = (I, cbs)" by (cases x)
  show ?case
  proof (cases "is_connected d")
    case False
    with Cons.prems x show ?thesis by simp
  next
    case True
    obtain d' r' where it: "iteration L i d I = (d', r')" by (cases "iteration L i d I")
    show ?thesis
    proof (cases r')
      case (Some e)
      with Cons.prems x True it have r: "r = Some e" by simp
      from iteration_raises [of L i d I e] it Some
      have "\<not> is_Exception e \<or> handler_sleep_result I = Some e" by simp
      with r x show ?thesis by auto
    next
      case None
      with Cons.prems x True it
      have "run_loop L i (foldl (deliver L) d' cbs) script = Some (d1, r)" by simp
      from Cons.IH [OF this] show ?thesis by auto
    qed
  qed
qed

lemma run_loop_offline: "\<not> is_connected d \<Longrightarrow> run_loop L i d script = Some (d, None)"
  by (cases script) auto

lemma run_loop_returns:
  "run_loop L i d (script @ [(I, cbs @ [OnDisconnect rc])]) \<noteq> None"
proof (induction script arbitrary: d)
  case Nil
  have "\<not> is_connected (foldl (deliver L) d' (cbs @ [OnDisconnect rc]))" for d'
    by (simp add: on_disconnect_def)
  then show ?case
    by (simp split: prod.splits option.splits)
next
  case (Cons x script)
  obtain I' cbs' where x: "x = (I', cbs')" by (cases x)
  show ?case using Cons.IH x
    by (simp split: prod.splits option.splits)
qed

lemma disconnect_trace:
  "trace (fst (disconnect d C)) = trace d @ [LoopStop] \<or>
   trace (fst (disconnect d C)) = trace d @ [LoopStop, MqttDisconnect]"
  by (simp add: disconnect_def disconnect_except_def call_def Let_def split: option.splits)

lemma disconnect_clean:
  "loop_stop_result C = None \<Longrightarrow> mqtt_disconnect_result C = None \<Longrightarrow>
   disconnect d C = (call (call d LoopStop) MqttDisconnect, None)"
  by (simp add: disconnect_def Let_def)

lemma run_finally:
  "run L d pi' script D = Some (d2, r) \<Longrightarrow>
   \<exists>d1 r1. run_loop L (run_interval d pi') d script = Some (d1, r1) \<and>
     d2 = fst (disconnect d1 D) \<and>
     (trace d2 = trace d1 @ [LoopStop] \<or> trace d2 = trace d1 @ [LoopStop, MqttDisconnect]) \<and>
     count_list (trace d2) LoopStop = Suc (count_list (trace d) LoopStop)"
proof -
  assume a: "run L d pi' script D = Some (d2, r)"
  then obtain d1 r1 where l: "run_loop L (run_interval d pi') d script = Some (d1, r1)"
    by (auto simp: run_def split: option.splits)
  with a have d2: "d2 = fst (disconnect d1 D)"
    by (auto simp: run_def split: prod.splits option.splits)
  have t: "trace d2 = trace d1 @ [LoopStop] \<or> trace d2 = trace d1 @ [LoopStop, MqttDisconnect]"
    using disconnect_trace [of d1 D] d2 by simp
  have "count_list (trace d1) LoopStop = count_list (trace d) LoopStop"
    using l by (rule run_loop_stops)
  with t have "count_list (trace d2) LoopStop = Suc (count_list (trace d) LoopStop)"
    by auto
  with l d2 t show ?thesis by blast
qed

lemma run_None: "(run L d pi' script D = None) = (run_loop L (run_interval d pi') d script = None)"
  by (simp add: run_def split: option.splits prod.splits)


lemma online_state: "scenario_online\<lparr>state := JObj []\<rparr> = scenario_online"
  by (simp add: scenario_online_def on_connect_def call_def scenario_device_def)

lemma online_trace:
  "trace scenario_online =
     [TlsSet ''ca.pem'' ''cert.pem'' ''key.pem'',
      Subscribe ''$aws/things/device-1/shadow/update/delta'' 1]"
  by (simp add: scenario_online_def on_connect_def call_def scenario_device_def
      command_topic_def scenario_config_def)

lemma online_publish:
  "publish_telemetry test_libs scenario_online scenario_payload scenario_pub =
     ((call scenario_online (Publish ''devices/device-1/telemetry'' scenario_text 1))
        \<lparr>last_published :=
           (last_published scenario_online)(''devices/device-1/telemetry'' \<mapsto> 1701648000),
         last_heartbeat := 1701648000,
         uptime_seconds := uptime_seconds scenario_online + 5\<rparr>, None)"
proof -
  have st: "stamp_time scenario_pub = 1701648000" "publish_result scenario_pub = None"
    "published_at scenario_pub = 1701648000" "heartbeat_time scenario_pub = 1701648000"
    by (simp_all add: scenario_pub_def)
  have tp: "telemetry_topic scenario_online = ''devices/device-1/telemetry''"
    by (simp add: telemetry_topic_def online_fields scenario_config_def)
  have pi: "publish_interval (config scenario_online) = 5"
    by (simp add: online_fields scenario_config_def)
  show ?thesis
    by (simp add: publish_telemetry_unfold st online_message online_valid scenario_dumps tp pi)
qed

lemma empty_shadow_dumps:
  "json_dumps test_libs (JObj [(''state'', JObj [(''reported'', JObj [])])]) =
     Inr empty_shadow_text"
  by (simp add: test_libs_def empty_shadow_def scenario_envelope_def)

lemma shadow_failing_pass:
  "iteration test_libs 5 scenario_online shadow_failing =
     (call (call ((call scenario_online (Publish ''devices/device-1/telemetry'' scenario_text 1))
        \<lparr>last_published :=
           (last_published scenario_online)(''devices/device-1/telemetry'' \<mapsto> 1701648000),
         last_heartbeat := 1701648000,
         uptime_seconds := uptime_seconds scenario_online + 5\<rparr>)
        (Publish ''$aws/things/device-1/shadow/update'' empty_shadow_text 1)) (Sleep 5), None)"
proof -
  let ?d1 = "(call scenario_online (Publish ''devices/device-1/telemetry'' scenario_text 1))
        \<lparr>last_published :=
           (last_published scenario_online)(''devices/device-1/telemetry'' \<mapsto> 1701648000),
         last_heartbeat := 1701648000,
         uptime_seconds := uptime_seconds scenario_online + 5\<rparr>"
  have tp: "shadow_topic ?d1 = ''$aws/things/device-1/shadow/update''"
    by (simp add: shadow_topic_def call_def online_fields scenario_config_def)
  have us: "update_shadow test_libs ?d1 (JObj []) (Some Exception) =
      (call ?d1 (Publish ''$aws/things/device-1/shadow/update'' empty_shadow_text 1), None)"
    using update_shadow_swallows [OF empty_shadow_dumps, of Exception ?d1] tp by simp
  show ?thesis
    using iteration_normal [of shadow_failing scenario_payload test_libs scenario_online 5]
    by (simp add: shadow_failing_fields online_state online_publish us)
qed

lemma gen_failing_run:
  "run test_libs scenario_online None [(gen_failing, [OnDisconnect 1])] clean_disconnect =
     Some (call (call (on_disconnect
             (call (scenario_online\<lparr>error_count := 1\<rparr>) (Sleep 5)) 1) LoopStop) MqttDisconnect,
           None)"
proof -
  have i: "run_interval scenario_online None = 5"
    by (simp add: run_interval_def online_fields scenario_config_def)
  have it: "iteration test_libs 5 scenario_online gen_failing =
      (call (scenario_online\<lparr>error_count := 1\<rparr>) (Sleep 5), None)"
    using iteration_gen_raises [of gen_failing Exception test_libs 5 scenario_online]
    by (simp add: gen_failing_fields online_fields)
      (metis online_state)
  have off: "\<not> is_connected (on_disconnect d 1)" for d
    by (simp add: on_disconnect_def)
  show ?thesis
    by (simp add: run_def i it online_fields off disconnect_clean clean_disconnect_def
        run_except_def)
qed


text \<open>
  Claim C2, as stated: every exception raised inside one pass of the loop, also one
  from \<^verbatim>\<open>update_shadow\<close>, is caught by the loop and adds one to \<^verbatim>\<open>error_count\<close>. In
  the pass below the telemetry is published, the publish inside \<^verbatim>\<open>update_shadow\<close>
  raises an \<^verbatim>\<open>Exception\<close>, the pass ends with its sleep and the loop goes on, and
  \<^verbatim>\<open>error_count\<close> is still 0.
\<close>

theorem loop_counts_every_exception_counterexample:
  "gen_result shadow_failing = Inr scenario_payload \<and>
   shadow_result shadow_failing = Some Exception \<and> is_Exception Exception \<and>
   error_count scenario_online = 0 \<and>
   snd (iteration test_libs 5 scenario_online shadow_failing) = None \<and>
   trace (fst (iteration test_libs 5 scenario_online shadow_failing)) =
     trace scenario_online @
       [Publish ''devices/device-1/telemetry'' scenario_text 1,
        Publish ''$aws/things/device-1/shadow/update'' empty_shadow_text 1,
        Sleep 5] \<and>
   error_count (fst (iteration test_libs 5 scenario_online shadow_failing)) = 0 \<and>
   error_count (fst (iteration test_libs 5 scenario_online shadow_failing)) \<noteq>
     error_count scenario_online + 1"
  by (simp add: shadow_failing_pass shadow_failing_fields online_fields call_def)


text \<open>
  Claim C2, amended. An \<^verbatim>\<open>Exception\<close> that reaches the handler of the loop body, as
  one raised by \<^verbatim>\<open>generate_telemetry\<close> does, adds one to \<^verbatim>\<open>error_count\<close> and is
  followed by a sleep of the same interval; the loop goes on when that sleep returns.
  No \<^verbatim>\<open>Exception\<close> leaves \<^verbatim>\<open>publish_telemetry\<close> or \<^verbatim>\<open>update_shadow\<close>: a publish
  that raises inside \<^verbatim>\<open>publish_telemetry\<close> is counted there, once, and one that
  raises inside \<^verbatim>\<open>update_shadow\<close> is only logged, \<^verbatim>\<open>update_shadow\<close> never changes
  \<^verbatim>\<open>error_count\<close>; in both cases the pass goes on to its sleep of the interval. The
  loop is left only when \<^verbatim>\<open>is_connected\<close> is false at its test, or by an exception
  that is not an \<^verbatim>\<open>Exception\<close> (an interrupt), or by one raised by the sleep of the
  handler; it is left at once when the device is not connected, and it is left
  whenever a disconnect callback arrives. Whenever \<^verbatim>\<open>run\<close> ends, its last step was
  \<^verbatim>\<open>disconnect\<close>, called once: the trace ends with the calls of \<^verbatim>\<open>disconnect\<close>, and
  it holds exactly one \<^verbatim>\<open>loop_stop\<close> more than at the start.
\<close>

theorem main_loop_errors_and_exit:
  "(\<forall>e. gen_result I = Inl e \<and> is_Exception e \<longrightarrow>
      iteration L i d I =
        (call (d\<lparr>state := gen_state I, error_count := error_count d + 1\<rparr>) (Sleep i),
         handler_sleep_result I)) \<and>
   (\<forall>e. is_Exception e \<longrightarrow>
      loop_except d i I e =
        (call (d\<lparr>error_count := error_count d + 1\<rparr>) (Sleep i), handler_sleep_result I)) \<and>
   (\<forall>e. snd (publish_telemetry L d p P) = Some e \<longrightarrow> \<not> is_Exception e) \<and>
   (\<forall>s x. snd (validate_telemetry L (validator d) (build_message d (stamp_time P) p)) = Inr True \<and>
      json_dumps L (build_message d (stamp_time P) p) = Inr s \<and>
      publish_result P = Some x \<and> is_Exception x \<longrightarrow>
      publish_telemetry L d p P =
        ((call d (Publish (telemetry_topic d) s 1))\<lparr>error_count := error_count d + 1\<rparr>, None)) \<and>
   error_count (fst (update_shadow L d r x)) = error_count d \<and>
   (\<forall>e. snd (update_shadow L d r x) = Some e \<longrightarrow> \<not> is_Exception e) \<and>
   (\<forall>s e. json_dumps L (JObj [(''state'', JObj [(''reported'', r)])]) = Inr s \<and>
      is_Exception e \<longrightarrow>
      update_shadow L d r (Some e) = (call d (Publish (shadow_topic d) s 1), None)) \<and>
   (\<forall>q. gen_result I = Inr q \<and>
      snd (publish_telemetry L (d\<lparr>state := gen_state I\<rparr>) q (telemetry_env I)) = None \<and>
      snd (update_shadow L
             (fst (publish_telemetry L (d\<lparr>state := gen_state I\<rparr>) q (telemetry_env I)))
             (gen_state I) (shadow_result I)) = None \<and>
      sleep_result I = None \<longrightarrow>
      iteration L i d I =
        (call (fst (update_shadow L
                 (fst (publish_telemetry L (d\<lparr>state := gen_state I\<rparr>) q (telemetry_env I)))
                 (gen_state I) (shadow_result I))) (Sleep i), None) \<and>
      error_count (fst (iteration L i d I)) =
        error_count (fst (publish_telemetry L (d\<lparr>state := gen_state I\<rparr>) q (telemetry_env I)))) \<and>
   (\<forall>d1 r1. run_loop L i d script = Some (d1, r1) \<longrightarrow>
      (r1 = None \<longrightarrow> \<not> is_connected d1) \<and>
      (\<forall>e. r1 = Some e \<longrightarrow>
         \<not> is_Exception e \<or> list_ex (\<lambda>x. handler_sleep_result (fst x) = Some e) script)) \<and>
   (\<not> is_connected d \<longrightarrow> run_loop L i d script = Some (d, None)) \<and>
   run_loop L i d (script @ [(I, cbs @ [OnDisconnect rc])]) \<noteq> None \<and>
   (\<forall>d2 r2. run L d pi' script D = Some (d2, r2) \<longrightarrow>
      (\<exists>d1 r1. run_loop L (run_interval d pi') d script = Some (d1, r1) \<and>
         d2 = fst (disconnect d1 D) \<and>
         (trace d2 = trace d1 @ [LoopStop] \<or> trace d2 = trace d1 @ [LoopStop, MqttDisconnect]) \<and>
         count_list (trace d2) LoopStop = Suc (count_list (trace d) LoopStop))) \<and>
   ((run L d pi' script D = None) = (run_loop L (run_interval d pi') d script = None))"
proof (intro conjI allI impI)
  fix e
  assume "gen_result I = Inl e \<and> is_Exception e"
  then show "iteration L i d I =
        (call (d\<lparr>state := gen_state I, error_count := error_count d + 1\<rparr>) (Sleep i),
         handler_sleep_result I)"
    by (simp add: iteration_gen_raises)
next
  fix e
  assume "is_Exception e"
  then show "loop_except d i I e =
        (call (d\<lparr>error_count := error_count d + 1\<rparr>) (Sleep i), handler_sleep_result I)"
    by (rule loop_except_caught)
next
  fix e
  assume "snd (publish_telemetry L d p P) = Some e"
  then show "\<not> is_Exception e" by (rule publish_telemetry_raises)
next
  fix s x
  assume "snd (validate_telemetry L (validator d) (build_message d (stamp_time P) p)) = Inr True \<and>
      json_dumps L (build_message d (stamp_time P) p) = Inr s \<and>
      publish_result P = Some x \<and> is_Exception x"
  then show "publish_telemetry L d p P =
        ((call d (Publish (telemetry_topic d) s 1))\<lparr>error_count := error_count d + 1\<rparr>, None)"
    by (simp add: publish_telemetry_failed)
next
  show "error_count (fst (update_shadow L d r x)) = error_count d"
    by (rule update_shadow_fields)
next
  fix e
  assume "snd (update_shadow L d r x) = Some e"
  then show "\<not> is_Exception e" by (rule update_shadow_raises)
next
  fix s e
  assume "json_dumps L (JObj [(''state'', JObj [(''reported'', r)])]) = Inr s \<and> is_Exception e"
  then show "update_shadow L d r (Some e) = (call d (Publish (shadow_topic d) s 1), None)"
    by (simp add: update_shadow_swallows)
next
  fix q
  assume h: "gen_result I = Inr q \<and>
      snd (publish_telemetry L (d\<lparr>state := gen_state I\<rparr>) q (telemetry_env I)) = None \<and>
      snd (update_shadow L
             (fst (publish_telemetry L (d\<lparr>state := gen_state I\<rparr>) q (telemetry_env I)))
             (gen_state I) (shadow_result I)) = None \<and>
      sleep_result I = None"
  then show eq: "iteration L i d I =
        (call (fst (update_shadow L
                 (fst (publish_telemetry L (d\<lparr>state := gen_state I\<rparr>) q (telemetry_env I)))
                 (gen_state I) (shadow_result I))) (Sleep i), None)"
    by (simp add: iteration_normal)
  show "error_count (fst (iteration L i d I)) =
        error_count (fst (publish_telemetry L (d\<lparr>state := gen_state I\<rparr>) q (telemetry_env I)))"
    by (simp add: eq call_def update_shadow_fields)
next
  fix d1 r1
  assume l: "run_loop L i d script = Some (d1, r1)"
  from run_loop_exit [OF l] show "\<not> is_connected d1" if "r1 = None"
    using that by simp
  fix e
  assume "r1 = Some e"
  with run_loop_exit [OF l]
  show "\<not> is_Exception e \<or> list_ex (\<lambda>x. handler_sleep_result (fst x) = Some e) script"
    by simp
next
  assume "\<not> is_connected d"
  then show "run_loop L i d script = Some (d, None)" by (rule run_loop_offline)
next
  show "run_loop L i d (script @ [(I, cbs @ [OnDisconnect rc])]) \<noteq> None"
    by (rule run_loop_returns)
next
  fix d2 r2
  assume "run L d pi' script D = Some (d2, r2)"
  then show "\<exists>d1 r1. run_loop L (run_interval d pi') d script = Some (d1, r1) \<and>
         d2 = fst (disconnect d1 D) \<and>
         (trace d2 = trace d1 @ [LoopStop] \<or> trace d2 = trace d1 @ [LoopStop, MqttDisconnect]) \<and>
         count_list (trace d2) LoopStop = Suc (count_list (trace d) LoopStop)"
    by (rule run_finally)
next
  show "(run L d pi' script D = None) = (run_loop L (run_interval d pi') d script = None)"
    by (rule run_None)
qed

theorem main_loop_errors_and_exit_witness:
  "gen_result gen_failing = Inl Exception \<and> is_Exception Exception \<and>
   iteration test_libs 5 scenario_online gen_failing =
     (call (scenario_online\<lparr>state := gen_state gen_failing,
                             error_count := error_count scenario_online + 1\<rparr>) (Sleep 5),
      handler_sleep_result gen_failing) \<and>
   publish_result failing_pub = Some Exception \<and>
   publish_telemetry test_libs scenario_online scenario_payload failing_pub =
     ((call scenario_online (Publish (telemetry_topic scenario_online) scenario_text 1))
        \<lparr>error_count := error_count scenario_online + 1\<rparr>, None) \<and>
   update_shadow test_libs scenario_online (JObj []) (Some Exception) =
     (call scenario_online (Publish (shadow_topic scenario_online) empty_shadow_text 1), None) \<and>
   gen_result shadow_failing = Inr scenario_payload \<and>
   shadow_result shadow_failing = Some Exception \<and>
   snd (iteration test_libs 5 scenario_online shadow_failing) = None \<and>
   error_count (fst (iteration test_libs 5 scenario_online shadow_failing)) =
     error_count (fst (publish_telemetry test_libs (scenario_online\<lparr>state := JObj []\<rparr>)
                         scenario_payload scenario_pub)) \<and>
   \<not> is_connected scenario_device \<and>
   run_loop test_libs 5 scenario_device [(gen_failing, [])] = Some (scenario_device, None) \<and>
   run_loop test_libs 5 scenario_online [(gen_failing, [OnDisconnect 1])] =
     Some (on_disconnect (call (scenario_online\<lparr>error_count := 1\<rparr>) (Sleep 5)) 1, None) \<and>
   \<not> is_connected (on_disconnect (call (scenario_online\<lparr>error_count := 1\<rparr>) (Sleep 5)) 1) \<and>
   run test_libs scenario_online None [(gen_failing, [OnDisconnect 1])] clean_disconnect =
     Some (call (call (on_disconnect
             (call (scenario_online\<lparr>error_count := 1\<rparr>) (Sleep 5)) 1) LoopStop) MqttDisconnect,
           None) \<and>
   count_list (trace (call (call (on_disconnect
             (call (scenario_online\<lparr>error_count := 1\<rparr>) (Sleep 5)) 1) LoopStop) MqttDisconnect))
     LoopStop = 1"
proof -
  let ?script = "[(gen_failing, [OnDisconnect 1])]"
  let ?d1 = "on_disconnect (call (scenario_online\<lparr>error_count := 1\<rparr>) (Sleep 5)) 1"
  let ?d2 = "call (call ?d1 LoopStop) MqttDisconnect"
  note inst = main_loop_errors_and_exit [where L = test_libs and d = scenario_online
      and i = 5 and ?pi' = None and script = ?script and D = clean_disconnect]
  have e: "is_Exception Exception" by simp
  have st: "stamp_time failing_pub = 1701648000" "publish_result failing_pub = Some Exception"
    by (simp_all add: failing_pub_def scenario_pub_def)
  have it: "iteration test_libs 5 scenario_online gen_failing =
     (call (scenario_online\<lparr>state := gen_state gen_failing,
                             error_count := error_count scenario_online + 1\<rparr>) (Sleep 5),
      handler_sleep_result gen_failing)"
    using inst [where I = gen_failing, THEN conjunct1, rule_format, of Exception]
      gen_failing_fields(1) e
    by simp
  have it': "iteration test_libs 5 scenario_online gen_failing =
      (call (scenario_online\<lparr>error_count := 1\<rparr>) (Sleep 5), None)"
    using it by (simp add: gen_failing_fields online_fields) (metis online_state)
  have pf: "publish_telemetry test_libs scenario_online scenario_payload failing_pub =
     ((call scenario_online (Publish (telemetry_topic scenario_online) scenario_text 1))
        \<lparr>error_count := error_count scenario_online + 1\<rparr>, None)"
    using inst [where p = scenario_payload and P = failing_pub, THEN conjunct2, THEN conjunct2, THEN conjunct2, THEN conjunct1, rule_format,
        of scenario_text Exception]
      st online_message online_valid scenario_dumps e
    by simp
  have sw: "update_shadow test_libs scenario_online (JObj []) (Some Exception) =
     (call scenario_online (Publish (shadow_topic scenario_online) empty_shadow_text 1), None)"
    using inst [where r = "JObj []", THEN conjunct2, THEN conjunct2, THEN conjunct2, THEN conjunct2, THEN conjunct2, THEN conjunct2, THEN conjunct1, rule_format, of empty_shadow_text Exception]
      empty_shadow_dumps e
    by simp
  have pass: "iteration test_libs 5 scenario_online shadow_failing =
        (call (fst (update_shadow test_libs
                 (fst (publish_telemetry test_libs (scenario_online\<lparr>state := JObj []\<rparr>)
                         scenario_payload scenario_pub))
                 (JObj []) (Some Exception))) (Sleep 5), None) \<and>
      error_count (fst (iteration test_libs 5 scenario_online shadow_failing)) =
        error_count (fst (publish_telemetry test_libs (scenario_online\<lparr>state := JObj []\<rparr>)
                         scenario_payload scenario_pub))"
  proof -
    have p0: "snd (publish_telemetry test_libs (scenario_online\<lparr>state := JObj []\<rparr>)
        scenario_payload scenario_pub) = None"
      by (simp add: online_state online_publish)
    have u0: "snd (update_shadow test_libs
        (fst (publish_telemetry test_libs (scenario_online\<lparr>state := JObj []\<rparr>)
                scenario_payload scenario_pub)) (JObj []) (Some Exception)) = None"
      using update_shadow_swallows [OF empty_shadow_dumps e] by simp
    note eighth = inst [where I = shadow_failing, THEN conjunct2, THEN conjunct2, THEN conjunct2, THEN conjunct2, THEN conjunct2, THEN conjunct2, THEN conjunct2, THEN conjunct1, rule_format,
        of scenario_payload, unfolded shadow_failing_fields]
    from eighth p0 u0 show ?thesis by blast
  qed
  have off: "\<not> is_connected scenario_device" by (simp add: scenario_device_def)
  have rl0: "run_loop test_libs 5 scenario_device [(gen_failing, [])] =
      Some (scenario_device, None)"
    using main_loop_errors_and_exit [where L = test_libs and d = scenario_device and i = 5
        and script = "[(gen_failing, [])]", THEN conjunct2, THEN conjunct2, THEN conjunct2, THEN conjunct2, THEN conjunct2, THEN conjunct2, THEN conjunct2, THEN conjunct2, THEN conjunct2, THEN conjunct1] off
    by blast
  have rl: "run_loop test_libs 5 scenario_online ?script = Some (?d1, None)"
    by (simp add: it' online_fields on_disconnect_def)
  have ex: "\<not> is_connected ?d1"
    using inst [THEN conjunct2, THEN conjunct2, THEN conjunct2, THEN conjunct2, THEN conjunct2, THEN conjunct2, THEN conjunct2, THEN conjunct2, THEN conjunct1, rule_format, OF rl] by simp
  have "count_list (trace ?d2) LoopStop = Suc (count_list (trace scenario_online) LoopStop)"
    using inst [THEN conjunct2, THEN conjunct2, THEN conjunct2, THEN conjunct2, THEN conjunct2, THEN conjunct2, THEN conjunct2, THEN conjunct2, THEN conjunct2, THEN conjunct2, THEN conjunct2, THEN conjunct1, rule_format, OF gen_failing_run] by blast
  then have c: "count_list (trace ?d2) LoopStop = 1"
    by (simp add: online_trace)
  from pass have sn: "snd (iteration test_libs 5 scenario_online shadow_failing) = None"
    by simp
  from pass have pe: "error_count (fst (iteration test_libs 5 scenario_online shadow_failing)) =
     error_count (fst (publish_telemetry test_libs (scenario_online\<lparr>state := JObj []\<rparr>)
                         scenario_payload scenario_pub))"
    by blast
  from gen_failing_fields(1) e it st(2) pf sw shadow_failing_fields(1) shadow_failing_fields(4)
    sn pe off rl0 rl ex gen_failing_run c
  show ?thesis by blast
qed

end
